theory Spec2Isabelle
  imports Complex_Main
begin

section \<open>The per-mobilizer node \<open>RigidBodyNodeSpec<dof>\<close>\<close>

text \<open>
  A shallow embedding of \<^verbatim>\<open>src/RigidBodyNodeSpec.h\<close>: the class template
  \<^verbatim>\<open>RigidBodyNodeSpec<dof>\<close>, the skeleton shared by all mobilizers with
  \<open>dof\<close> mobilities. The scalar type \<^verbatim>\<open>Real\<close> is the type variable \<open>'r\<close>:
  the copying routines need nothing of it, the default installers need its zero, the
  Jacobian products need its sum and product, and no claim rests on a law of arithmetic.
  A \<^verbatim>\<open>Vector\<close> and an array behind a \<^verbatim>\<open>Real*\<close> are lists. Two arrays passed
  to one routine are distinct objects, as at every call in the class.
\<close>

subsection \<open>Failures as values\<close>

text \<open>
  \<^verbatim>\<open>assert\<close> is modelled as compiled in: a failed assertion is the value
  \<open>AssertionFailed\<close>. An access outside an array is undefined behaviour in the source and
  the value \<open>OutOfRange\<close> here; a column block whose width is not \<open>dof\<close> cannot be written
  in the source (the type \<^verbatim>\<open>Mat<2,dof,Vec3>\<close> fixes it) and is \<open>DimensionMismatch\<close>;
  an \<^verbatim>\<open>int\<close> sum above \<open>2^31 - 1\<close> is undefined behaviour in the source and
  \<open>IndexOverflow\<close> here.
\<close>

datatype error = AssertionFailed | OutOfRange | DimensionMismatch | IndexOverflow

definition bindE :: "error + 'a \<Rightarrow> ('a \<Rightarrow> error + 'b) \<Rightarrow> error + 'b" where
  "bindE m f = (case m of Inl e \<Rightarrow> Inl e | Inr x \<Rightarrow> f x)"

definition assertE :: "bool \<Rightarrow> error + unit" where
  "assertE b = (if b then Inr () else Inl AssertionFailed)"

subsection \<open>Fixed-size views into flat storage\<close>

text \<open>
  \<^verbatim>\<open>Vec<n>::getAs(&a[off])\<close> reads the \<open>n\<close> entries of \<open>a\<close> from \<open>off\<close> on;
  an assignment to \<^verbatim>\<open>Vec<n>::updAs(&a[off])\<close> overwrites exactly those entries.
\<close>

definition getAs :: "nat \<Rightarrow> nat \<Rightarrow> 'a list \<Rightarrow> error + 'a list" where
  "getAs off n a = (if off + n \<le> length a then Inr (take n (drop off a)) else Inl OutOfRange)"

definition updAs :: "nat \<Rightarrow> nat \<Rightarrow> 'a list \<Rightarrow> 'a list \<Rightarrow> error + 'a list" where
  "updAs off n vals a =
     (if off + n \<le> length a
      then (if length vals = n then Inr (take off a @ vals @ drop (off + n) a)
            else Inl DimensionMismatch)
      else Inl OutOfRange)"

subsection \<open>Spatial primitives\<close>

type_synonym 'r Vec3 = "'r \<times> 'r \<times> 'r"

text \<open>A \<^verbatim>\<open>SpatialVec\<close> is a pair of \<^verbatim>\<open>Vec3\<close>: entry 0 angular, entry 1 linear.\<close>

type_synonym 'r SpatialVec = "'r Vec3 \<times> 'r Vec3"

text \<open>
  \<^verbatim>\<open>HType = Mat<2,dof,Vec3>\<close>, kept by columns: column \<open>j\<close> is the spatial vector
  that speed \<open>j\<close> contributes (\<^verbatim>\<open>getHCol\<close> returns one such column).
\<close>

type_synonym 'r HType = "'r SpatialVec list"

type_synonym 'r Mat33 = "'r Vec3 \<times> 'r Vec3 \<times> 'r Vec3"

text \<open>A \<^verbatim>\<open>Transform\<close> with its accessors \<^verbatim>\<open>R()\<close> and \<^verbatim>\<open>p()\<close>.\<close>

record 'r Transform =
  T_R :: "'r Mat33"
  T_p :: "'r Vec3"

subsection \<open>The node\<close>

text \<open>
  Modelled from the spec: the two modes of a node are enumerations of the base class
  (\<^verbatim>\<open>RigidBodyNode.h\<close> is not part of the sources at hand). The class names one value
  of each, \<^verbatim>\<open>QDotIsAlwaysTheSameAsU\<close> and \<^verbatim>\<open>QuaternionIsNeverUsed\<close>; the other value
  stands for "joint-specific mapping" and for "a quaternion for some rotational part".
\<close>

datatype QDotHandling = QDotIsAlwaysTheSameAsU | QDotMayDifferFromU

datatype QuaternionUse = QuaternionIsNeverUsed | QuaternionMayBeUsed

text \<open>
  The attributes of a node: the template argument \<open>dof\<close>, what the constructor hands to
  the base class, the node's number and its parent's in the tree, and the three slot
  indices the constructor records.
\<close>

record ('r, 'o) RigidBodyNode =
  dof :: nat
  massProps :: 'o
  X_PF :: "'r Transform"
  X_BM :: "'r Transform"
  qdotHandling :: QDotHandling
  quaternionUse :: QuaternionUse
  reversed :: bool
  nodeNum :: nat
  parentNum :: nat
  uIndex :: nat
  uSqIndex :: nat
  qIndex :: nat

definition getDOF :: "('r, 'o) RigidBodyNode \<Rightarrow> nat" where
  "getDOF n = dof n"

definition isReversed :: "('r, 'o) RigidBodyNode \<Rightarrow> bool" where
  "isReversed n = reversed n"

subsection \<open>Selecting a node's entries from the pooled arrays\<close>

definition fromQ :: "('r, 'o) RigidBodyNode \<Rightarrow> 'a list \<Rightarrow> error + 'a list" where
  "fromQ n qs = getAs (qIndex n) (dof n) qs"

definition toQ :: "('r, 'o) RigidBodyNode \<Rightarrow> 'a list \<Rightarrow> 'a list \<Rightarrow> error + 'a list" where
  "toQ n vals qs = updAs (qIndex n) (dof n) vals qs"

definition fromU :: "('r, 'o) RigidBodyNode \<Rightarrow> 'a list \<Rightarrow> error + 'a list" where
  "fromU n us = getAs (uIndex n) (dof n) us"

definition toU :: "('r, 'o) RigidBodyNode \<Rightarrow> 'a list \<Rightarrow> 'a list \<Rightarrow> error + 'a list" where
  "toU n vals us = updAs (uIndex n) (dof n) vals us"

subsection \<open>Default coordinate-derivative mapping\<close>

text \<open>
  \<^verbatim>\<open>calcQDot\<close>: \<^verbatim>\<open>assert(qdotHandling == QDotIsAlwaysTheSameAsU); toQ(qdot) = fromU(u);\<close>
  The state digest is not read.
\<close>

definition calcQDot ::
  "('r, 'o) RigidBodyNode \<Rightarrow> 's \<Rightarrow> 'r list \<Rightarrow> 'r list \<Rightarrow> error + 'r list" where
  "calcQDot n sbs us qdot =
     bindE (assertE (qdotHandling n = QDotIsAlwaysTheSameAsU)) (\<lambda>_.
     bindE (fromU n us) (\<lambda>vals. toQ n vals qdot))"

definition calcQDotDot ::
  "('r, 'o) RigidBodyNode \<Rightarrow> 's \<Rightarrow> 'r list \<Rightarrow> 'r list \<Rightarrow> error + 'r list" where
  "calcQDotDot n sbs udot qdotdot =
     bindE (assertE (qdotHandling n = QDotIsAlwaysTheSameAsU)) (\<lambda>_.
     bindE (fromU n udot) (\<lambda>vals. toQ n vals qdotdot))"

text \<open>The local variants work on the node's own \<open>dof\<close> numbers, from the pointer on.\<close>

definition calcLocalQDotFromLocalU ::
  "('r, 'o) RigidBodyNode \<Rightarrow> 's \<Rightarrow> 'r list \<Rightarrow> 'r list \<Rightarrow> error + 'r list" where
  "calcLocalQDotFromLocalU n sbs us qdot =
     bindE (assertE (qdotHandling n = QDotIsAlwaysTheSameAsU)) (\<lambda>_.
     bindE (getAs 0 (dof n) us) (\<lambda>vals. updAs 0 (dof n) vals qdot))"

definition calcLocalQDotDotFromLocalUDot ::
  "('r, 'o) RigidBodyNode \<Rightarrow> 's \<Rightarrow> 'r list \<Rightarrow> 'r list \<Rightarrow> error + 'r list" where
  "calcLocalQDotDotFromLocalUDot n sbs udot qdotdot =
     bindE (assertE (qdotHandling n = QDotIsAlwaysTheSameAsU)) (\<lambda>_.
     bindE (getAs 0 (dof n) udot) (\<lambda>vals. updAs 0 (dof n) vals qdotdot))"

text \<open>
  \<^verbatim>\<open>multiplyByN\<close> and \<^verbatim>\<open>multiplyByNInv\<close>: the block of \<open>N\<close> is the identity, so
  either one copies \<open>dof\<close> numbers from \<open>in\<close> to \<open>out\<close>, whatever the side.
\<close>

definition multiplyByN ::
  "('r, 'o) RigidBodyNode \<Rightarrow> 's \<Rightarrow> bool \<Rightarrow> 'r list \<Rightarrow> bool \<Rightarrow> 'r list \<Rightarrow> 'r list
     \<Rightarrow> error + 'r list" where
  "multiplyByN n sbs useEulerAnglesIfPossible qs matrixOnRight inp out =
     bindE (assertE (qdotHandling n = QDotIsAlwaysTheSameAsU)) (\<lambda>_.
     bindE (getAs 0 (dof n) inp) (\<lambda>vals. updAs 0 (dof n) vals out))"

definition multiplyByNInv ::
  "('r, 'o) RigidBodyNode \<Rightarrow> 's \<Rightarrow> bool \<Rightarrow> 'r list \<Rightarrow> bool \<Rightarrow> 'r list \<Rightarrow> 'r list
     \<Rightarrow> error + 'r list" where
  "multiplyByNInv n sbs useEulerAnglesIfPossible qs matrixOnRight inp out =
     bindE (assertE (qdotHandling n = QDotIsAlwaysTheSameAsU)) (\<lambda>_.
     bindE (getAs 0 (dof n) inp) (\<lambda>vals. updAs 0 (dof n) vals out))"

subsection \<open>Default coordinate counts and quaternion handling\<close>

definition getMaxNQ :: "('r, 'o) RigidBodyNode \<Rightarrow> error + nat" where
  "getMaxNQ n =
     bindE (assertE (quaternionUse n = QuaternionIsNeverUsed)) (\<lambda>_. Inr (dof n))"

definition getNQInUse :: "('r, 'o) RigidBodyNode \<Rightarrow> 'mv \<Rightarrow> error + nat" where
  "getNQInUse n mv =
     bindE (assertE (quaternionUse n = QuaternionIsNeverUsed)) (\<lambda>_. Inr (dof n))"

definition getNUInUse :: "('r, 'o) RigidBodyNode \<Rightarrow> 'mv \<Rightarrow> nat" where
  "getNUInUse n mv = dof n"

text \<open>
  \<^verbatim>\<open>isUsingQuaternion\<close> returns its result together with the out-parameter
  \<^verbatim>\<open>startOfQuaternion\<close>; an invalidated index is \<open>None\<close>.
\<close>

definition isUsingQuaternion :: "('r, 'o) RigidBodyNode \<Rightarrow> 's \<Rightarrow> error + (bool \<times> nat option)" where
  "isUsingQuaternion n sbs =
     bindE (assertE (quaternionUse n = QuaternionIsNeverUsed)) (\<lambda>_. Inr (False, None))"

definition copyQ ::
  "('r, 'o) RigidBodyNode \<Rightarrow> 'mv \<Rightarrow> 'r list \<Rightarrow> 'r list \<Rightarrow> error + 'r list" where
  "copyQ n mv qIn qs =
     bindE (assertE (quaternionUse n = QuaternionIsNeverUsed)) (\<lambda>_.
     bindE (fromQ n qIn) (\<lambda>vals. toQ n vals qs))"

definition copyU ::
  "('r, 'o) RigidBodyNode \<Rightarrow> 'mv \<Rightarrow> 'r list \<Rightarrow> 'r list \<Rightarrow> error + 'r list" where
  "copyU n mv uIn us = bindE (fromU n uIn) (\<lambda>vals. toU n vals us)"

text \<open>
  \<^verbatim>\<open>enforceQuaternionConstraints\<close> returns whether \<open>q\<close> was changed, with the two
  vectors it was handed by reference.
\<close>

definition enforceQuaternionConstraints ::
  "('r, 'o) RigidBodyNode \<Rightarrow> 's \<Rightarrow> 'r list \<Rightarrow> 'r list \<Rightarrow> error + (bool \<times> 'r list \<times> 'r list)" where
  "enforceQuaternionConstraints n sbs qs qErrest =
     bindE (assertE (quaternionUse n = QuaternionIsNeverUsed)) (\<lambda>_. Inr (False, qs, qErrest))"

subsection \<open>Default-value installers\<close>

definition setMobilizerDefaultModelValues :: "('r, 'o) RigidBodyNode \<Rightarrow> 'tc \<Rightarrow> 'mv \<Rightarrow> 'mv" where
  "setMobilizerDefaultModelValues n tc mv = mv"

definition setMobilizerDefaultInstanceValues :: "('r, 'o) RigidBodyNode \<Rightarrow> 'mv \<Rightarrow> 'iv \<Rightarrow> 'iv" where
  "setMobilizerDefaultInstanceValues n mv iv = iv"

definition setMobilizerDefaultTimeValues :: "('r, 'o) RigidBodyNode \<Rightarrow> 'mv \<Rightarrow> 'tv \<Rightarrow> 'tv" where
  "setMobilizerDefaultTimeValues n mv tv = tv"

definition setMobilizerDefaultPositionValues ::
  "('r::zero, 'o) RigidBodyNode \<Rightarrow> 'mv \<Rightarrow> 'r list \<Rightarrow> error + 'r list" where
  "setMobilizerDefaultPositionValues n mv qs = toQ n (replicate (dof n) 0) qs"

definition setMobilizerDefaultVelocityValues ::
  "('r::zero, 'o) RigidBodyNode \<Rightarrow> 'mv \<Rightarrow> 'r list \<Rightarrow> error + 'r list" where
  "setMobilizerDefaultVelocityValues n mv us = toU n (replicate (dof n) 0) us"

definition setMobilizerDefaultDynamicsValues :: "('r, 'o) RigidBodyNode \<Rightarrow> 'mv \<Rightarrow> 'dv \<Rightarrow> 'dv" where
  "setMobilizerDefaultDynamicsValues n mv dv = dv"

definition setMobilizerDefaultAccelerationValues :: "('r, 'o) RigidBodyNode \<Rightarrow> 'mv \<Rightarrow> 'dv \<Rightarrow> 'dv" where
  "setMobilizerDefaultAccelerationValues n mv dv = dv"

subsection \<open>Stage caches and the state digest\<close>

text \<open>
  Modelled from the spec: the stage caches are flat, externally owned storage
  (\<^verbatim>\<open>SimbodyMatterSubsystemRep.h\<close> is not part of the sources at hand). The entries
  addressed by a slot index (\<^verbatim>\<open>sq\<close>, \<^verbatim>\<open>cq\<close>, \<^verbatim>\<open>qnorm\<close> and the
  \<^verbatim>\<open>storageFor...\<close> matrices, one column per mobility) are lists; the per-body
  entries that the base class reaches through \<^verbatim>\<open>updX_FM\<close>, \<^verbatim>\<open>updX_PB\<close>,
  \<^verbatim>\<open>updX_GB\<close>, \<^verbatim>\<open>updV_FM\<close>, \<^verbatim>\<open>updV_PB_G\<close> and \<^verbatim>\<open>updVD_PB_G\<close> are
  stores from node numbers to values. Everything else a cache holds is one opaque field.
\<close>

record ('r, 'o) SBPositionCache =
  sq :: "'r list"
  cq :: "'r list"
  qnorm :: "'r list"
  storageForH_FM :: "'r SpatialVec list"
  storageForH :: "'r SpatialVec list"
  pcX_FM :: "nat \<Rightarrow> 'r Transform"
  pcX_PB :: "nat \<Rightarrow> 'r Transform"
  pcX_GB :: "nat \<Rightarrow> 'r Transform"
  pcOther :: 'o

record ('r, 'o) SBVelocityCache =
  vcV_FM :: "nat \<Rightarrow> 'r SpatialVec"
  vcV_PB_G :: "nat \<Rightarrow> 'r SpatialVec"
  vcOther :: 'o

record ('r, 'o) SBDynamicsCache =
  storageForHDot_FM :: "'r SpatialVec list"
  storageForHDot :: "'r SpatialVec list"
  dcVD_PB_G :: "nat \<Rightarrow> 'r SpatialVec"
  dcOther :: 'o

text \<open>
  Modelled from the spec: the digest the tree driver supplies, "giving access to the
  correct stage caches and the shared generalized-coordinate/speed arrays".
\<close>

record ('r, 'o) SBStateDigest =
  modelVars :: 'o
  modelCache :: 'o
  instanceCache :: 'o
  sbsQ :: "'r list"
  sbsU :: "'r list"
  sbsQErr :: "'r list"
  sbsQDot :: "'r list"
  positionCache :: "('r, 'o) SBPositionCache"
  velocityCache :: "('r, 'o) SBVelocityCache"
  dynamicsCache :: "('r, 'o) SBDynamicsCache"
  accelerationCache :: 'o

subsection \<open>Cache accessors\<close>

definition getH_FM :: "('r, 'o) RigidBodyNode \<Rightarrow> ('r, 'o) SBPositionCache \<Rightarrow> error + 'r HType" where
  "getH_FM n pc = getAs (uIndex n) (dof n) (storageForH_FM pc)"

definition updH_FM ::
  "('r, 'o) RigidBodyNode \<Rightarrow> 'r HType \<Rightarrow> ('r, 'o) SBPositionCache
     \<Rightarrow> error + ('r, 'o) SBPositionCache" where
  "updH_FM n h pc =
     bindE (updAs (uIndex n) (dof n) h (storageForH_FM pc)) (\<lambda>s. Inr (pc\<lparr>storageForH_FM := s\<rparr>))"

definition getH :: "('r, 'o) RigidBodyNode \<Rightarrow> ('r, 'o) SBPositionCache \<Rightarrow> error + 'r HType" where
  "getH n pc = getAs (uIndex n) (dof n) (storageForH pc)"

definition updH ::
  "('r, 'o) RigidBodyNode \<Rightarrow> 'r HType \<Rightarrow> ('r, 'o) SBPositionCache
     \<Rightarrow> error + ('r, 'o) SBPositionCache" where
  "updH n h pc =
     bindE (updAs (uIndex n) (dof n) h (storageForH pc)) (\<lambda>s. Inr (pc\<lparr>storageForH := s\<rparr>))"

definition getHDot_FM :: "('r, 'o) RigidBodyNode \<Rightarrow> ('r, 'o) SBDynamicsCache \<Rightarrow> error + 'r HType" where
  "getHDot_FM n dc = getAs (uIndex n) (dof n) (storageForHDot_FM dc)"

definition updHDot_FM ::
  "('r, 'o) RigidBodyNode \<Rightarrow> 'r HType \<Rightarrow> ('r, 'o) SBDynamicsCache
     \<Rightarrow> error + ('r, 'o) SBDynamicsCache" where
  "updHDot_FM n h dc =
     bindE (updAs (uIndex n) (dof n) h (storageForHDot_FM dc))
       (\<lambda>s. Inr (dc\<lparr>storageForHDot_FM := s\<rparr>))"

definition getHDot :: "('r, 'o) RigidBodyNode \<Rightarrow> ('r, 'o) SBDynamicsCache \<Rightarrow> error + 'r HType" where
  "getHDot n dc = getAs (uIndex n) (dof n) (storageForHDot dc)"

definition updHDot ::
  "('r, 'o) RigidBodyNode \<Rightarrow> 'r HType \<Rightarrow> ('r, 'o) SBDynamicsCache
     \<Rightarrow> error + ('r, 'o) SBDynamicsCache" where
  "updHDot n h dc =
     bindE (updAs (uIndex n) (dof n) h (storageForHDot dc))
       (\<lambda>s. Inr (dc\<lparr>storageForHDot := s\<rparr>))"

text \<open>
  Modelled from the spec: the per-body accessors of the base class
  (\<^verbatim>\<open>RigidBodyNode.h\<close> is not part of the sources at hand). Each reads or writes this
  node's entry; \<^verbatim>\<open>getX_GP\<close> is the parent's already-realized ground transform.
\<close>

definition getX_FM :: "('r, 'o) RigidBodyNode \<Rightarrow> ('r, 'o) SBPositionCache \<Rightarrow> 'r Transform" where
  "getX_FM n pc = pcX_FM pc (nodeNum n)"

definition updX_FM ::
  "('r, 'o) RigidBodyNode \<Rightarrow> 'r Transform \<Rightarrow> ('r, 'o) SBPositionCache \<Rightarrow> ('r, 'o) SBPositionCache" where
  "updX_FM n X pc = pc\<lparr>pcX_FM := (pcX_FM pc)(nodeNum n := X)\<rparr>"

definition getX_PB :: "('r, 'o) RigidBodyNode \<Rightarrow> ('r, 'o) SBPositionCache \<Rightarrow> 'r Transform" where
  "getX_PB n pc = pcX_PB pc (nodeNum n)"

definition updX_PB ::
  "('r, 'o) RigidBodyNode \<Rightarrow> 'r Transform \<Rightarrow> ('r, 'o) SBPositionCache \<Rightarrow> ('r, 'o) SBPositionCache" where
  "updX_PB n X pc = pc\<lparr>pcX_PB := (pcX_PB pc)(nodeNum n := X)\<rparr>"

definition getX_GB :: "('r, 'o) RigidBodyNode \<Rightarrow> ('r, 'o) SBPositionCache \<Rightarrow> 'r Transform" where
  "getX_GB n pc = pcX_GB pc (nodeNum n)"

definition updX_GB ::
  "('r, 'o) RigidBodyNode \<Rightarrow> 'r Transform \<Rightarrow> ('r, 'o) SBPositionCache \<Rightarrow> ('r, 'o) SBPositionCache" where
  "updX_GB n X pc = pc\<lparr>pcX_GB := (pcX_GB pc)(nodeNum n := X)\<rparr>"

definition getX_GP :: "('r, 'o) RigidBodyNode \<Rightarrow> ('r, 'o) SBPositionCache \<Rightarrow> 'r Transform" where
  "getX_GP n pc = pcX_GB pc (parentNum n)"

definition getX_PF :: "('r, 'o) RigidBodyNode \<Rightarrow> 'r Transform" where
  "getX_PF n = X_PF n"

definition getV_FM :: "('r, 'o) RigidBodyNode \<Rightarrow> ('r, 'o) SBVelocityCache \<Rightarrow> 'r SpatialVec" where
  "getV_FM n vc = vcV_FM vc (nodeNum n)"

definition updV_FM ::
  "('r, 'o) RigidBodyNode \<Rightarrow> 'r SpatialVec \<Rightarrow> ('r, 'o) SBVelocityCache \<Rightarrow> ('r, 'o) SBVelocityCache" where
  "updV_FM n V vc = vc\<lparr>vcV_FM := (vcV_FM vc)(nodeNum n := V)\<rparr>"

definition getV_PB_G :: "('r, 'o) RigidBodyNode \<Rightarrow> ('r, 'o) SBVelocityCache \<Rightarrow> 'r SpatialVec" where
  "getV_PB_G n vc = vcV_PB_G vc (nodeNum n)"

definition updV_PB_G ::
  "('r, 'o) RigidBodyNode \<Rightarrow> 'r SpatialVec \<Rightarrow> ('r, 'o) SBVelocityCache \<Rightarrow> ('r, 'o) SBVelocityCache" where
  "updV_PB_G n V vc = vc\<lparr>vcV_PB_G := (vcV_PB_G vc)(nodeNum n := V)\<rparr>"

definition getVD_PB_G :: "('r, 'o) RigidBodyNode \<Rightarrow> ('r, 'o) SBDynamicsCache \<Rightarrow> 'r SpatialVec" where
  "getVD_PB_G n dc = dcVD_PB_G dc (nodeNum n)"

definition updVD_PB_G ::
  "('r, 'o) RigidBodyNode \<Rightarrow> 'r SpatialVec \<Rightarrow> ('r, 'o) SBDynamicsCache \<Rightarrow> ('r, 'o) SBDynamicsCache" where
  "updVD_PB_G n V dc = dc\<lparr>dcVD_PB_G := (dcVD_PB_G dc)(nodeNum n := V)\<rparr>"

subsection \<open>The Jacobian-times-speeds product\<close>

text \<open>
  Modelled from the spec: the product of a \<^verbatim>\<open>Mat<2,dof,Vec3>\<close> with a
  \<^verbatim>\<open>Vec<dof>\<close> belongs to the linear-algebra library, which the class consumes. Entry
  \<open>i\<close> of the result is row \<open>i\<close> times the vector; a row times a vector starts from the
  first product and adds the others in order: no zero and no law of arithmetic is
  involved. A row with no entry has no first product.
\<close>

definition scaleVec3 :: "'r::times Vec3 \<Rightarrow> 'r \<Rightarrow> 'r Vec3" where
  "scaleVec3 v s = (case v of (x, y, z) \<Rightarrow> (x * s, y * s, z * s))"

definition addVec3 :: "'r::plus Vec3 \<Rightarrow> 'r Vec3 \<Rightarrow> 'r Vec3" where
  "addVec3 v w = (case v of (x, y, z) \<Rightarrow> (case w of (a, b, c) \<Rightarrow> (x + a, y + b, z + c)))"

definition rowTimesVec :: "('r::{plus,times}) Vec3 list \<Rightarrow> 'r list \<Rightarrow> error + 'r Vec3" where
  "rowTimesVec r v =
     (if length r \<noteq> length v then Inl DimensionMismatch
      else (case zip r v of
              [] \<Rightarrow> Inl OutOfRange
            | (r0, v0) # rest \<Rightarrow>
                Inr (foldl (\<lambda>s (ri, vi). addVec3 s (scaleVec3 ri vi)) (scaleVec3 r0 v0) rest)))"

definition HTimesVec :: "('r::{plus,times}) HType \<Rightarrow> 'r list \<Rightarrow> error + 'r SpatialVec" where
  "HTimesVec h v =
     bindE (rowTimesVec (map fst h) v) (\<lambda>w.
     bindE (rowTimesVec (map snd h) v) (\<lambda>l. Inr (w, l)))"

subsection \<open>Velocity- and dynamics-stage joint kinematics\<close>

definition calcJointKinematicsVel ::
  "('r::{plus,times}, 'o) RigidBodyNode \<Rightarrow> ('r, 'o) SBPositionCache \<Rightarrow> 'r list
     \<Rightarrow> ('r, 'o) SBVelocityCache \<Rightarrow> error + ('r, 'o) SBVelocityCache" where
  "calcJointKinematicsVel n pc us vc =
     bindE (getH_FM n pc) (\<lambda>h_fm.
     bindE (fromU n us) (\<lambda>w.
     bindE (HTimesVec h_fm w) (\<lambda>v_fm.
     bindE (getH n pc) (\<lambda>h.
     bindE (fromU n us) (\<lambda>w'.
     bindE (HTimesVec h w') (\<lambda>v_pb_g.
     Inr (updV_PB_G n v_pb_g (updV_FM n v_fm vc))))))))"

definition calcJointDynamics ::
  "('r::{plus,times}, 'o) RigidBodyNode \<Rightarrow> ('r, 'o) SBPositionCache \<Rightarrow> 'r list
     \<Rightarrow> ('r, 'o) SBVelocityCache \<Rightarrow> ('r, 'o) SBDynamicsCache
     \<Rightarrow> error + ('r, 'o) SBDynamicsCache" where
  "calcJointDynamics n pc us vc dc =
     bindE (getHDot n dc) (\<lambda>hdot.
     bindE (fromU n us) (\<lambda>w.
     bindE (HTimesVec hdot w) (\<lambda>vd. Inr (updVD_PB_G n vd dc))))"

subsection \<open>What the class takes from outside\<close>

text \<open>
  The class is abstract and its out-of-line members are defined elsewhere, so the model
  takes as parameters: the composition \<^verbatim>\<open>*\<close> and inverse \<^verbatim>\<open>~\<close> of transforms
  (linear-algebra library); the pure virtual methods a concrete mobilizer supplies; the
  reversed-mobilizer adapters, which a mobilizer may override; and the members declared
  here whose bodies are not part of the sources at hand. A method that fills an
  out-parameter from a const digest is a function of the digest; one that works on a
  cache in place is a function from cache to cache.
\<close>

record ('r, 'o) Collaborators =
  compose :: "'r Transform \<Rightarrow> 'r Transform \<Rightarrow> 'r Transform"
  invert :: "'r Transform \<Rightarrow> 'r Transform"
  calcJointSinCosQNorm ::
    "'o \<Rightarrow> 'o \<Rightarrow> 'o \<Rightarrow> 'r list \<Rightarrow> 'r list \<times> 'r list \<times> 'r list \<times> 'r list
       \<Rightarrow> 'r list \<times> 'r list \<times> 'r list \<times> 'r list"
  calcAcrossJointTransform :: "('r, 'o) SBStateDigest \<Rightarrow> 'r list \<Rightarrow> 'r Transform"
  calcAcrossJointVelocityJacobian :: "('r, 'o) SBStateDigest \<Rightarrow> 'r HType"
  calcAcrossJointVelocityJacobianDot :: "('r, 'o) SBStateDigest \<Rightarrow> 'r HType"
  calcReverseMobilizerH_FM :: "('r, 'o) SBStateDigest \<Rightarrow> 'r HType"
  calcReverseMobilizerHDot_FM :: "('r, 'o) SBStateDigest \<Rightarrow> 'r HType"
  calcParentToChildVelocityJacobianInGround ::
    "'o \<Rightarrow> ('r, 'o) SBPositionCache \<Rightarrow> 'r HType"
  calcParentToChildVelocityJacobianInGroundDot ::
    "'o \<Rightarrow> ('r, 'o) SBPositionCache \<Rightarrow> ('r, 'o) SBVelocityCache \<Rightarrow> ('r, 'o) SBDynamicsCache
       \<Rightarrow> 'r HType"
  calcJointIndependentKinematicsPos :: "('r, 'o) SBPositionCache \<Rightarrow> ('r, 'o) SBPositionCache"
  calcJointIndependentDynamicsVel ::
    "('r, 'o) SBPositionCache \<Rightarrow> ('r, 'o) SBVelocityCache \<Rightarrow> ('r, 'o) SBDynamicsCache
       \<Rightarrow> ('r, 'o) SBDynamicsCache"
  setQToFitRotationImpl :: "('r, 'o) SBStateDigest \<Rightarrow> 'r Mat33 \<Rightarrow> 'r list \<Rightarrow> 'r list"
  setQToFitTranslationImpl :: "('r, 'o) SBStateDigest \<Rightarrow> 'r Vec3 \<Rightarrow> 'r list \<Rightarrow> 'r list"
  setUToFitAngularVelocityImpl ::
    "('r, 'o) SBStateDigest \<Rightarrow> 'r list \<Rightarrow> 'r Vec3 \<Rightarrow> 'r list \<Rightarrow> 'r list"
  setUToFitLinearVelocityImpl ::
    "('r, 'o) SBStateDigest \<Rightarrow> 'r list \<Rightarrow> 'r Vec3 \<Rightarrow> 'r list \<Rightarrow> 'r list"

text \<open>
  Modelled from the spec: \<^verbatim>\<open>getX_MB()\<close> of the base class, the fixed transform from
  the mobilizer frame to the body frame, the inverse of the \<^verbatim>\<open>X_BM\<close> the constructor
  is given.
\<close>

definition getX_MB :: "('r, 'o) Collaborators \<Rightarrow> ('r, 'o) RigidBodyNode \<Rightarrow> 'r Transform" where
  "getX_MB ext n = invert ext (X_BM n)"

subsection \<open>Composed fitting defaults\<close>

definition setQToFitTransformImpl ::
  "('r, 'o) Collaborators \<Rightarrow> ('r, 'o) SBStateDigest \<Rightarrow> 'r Transform \<Rightarrow> 'r list \<Rightarrow> 'r list" where
  "setQToFitTransformImpl ext sbs X qs =
     (let qs1 = setQToFitRotationImpl ext sbs (T_R X) qs
      in setQToFitTranslationImpl ext sbs (T_p X) qs1)"

definition setUToFitVelocityImpl ::
  "('r, 'o) Collaborators \<Rightarrow> ('r, 'o) SBStateDigest \<Rightarrow> 'r list \<Rightarrow> 'r SpatialVec \<Rightarrow> 'r list
     \<Rightarrow> 'r list" where
  "setUToFitVelocityImpl ext sbs qs V us =
     (let us1 = setUToFitAngularVelocityImpl ext sbs qs (fst V) us
      in setUToFitLinearVelocityImpl ext sbs qs (snd V) us1)"

subsection \<open>The realize pipeline\<close>

definition calcBodyTransforms ::
  "('r, 'o) Collaborators \<Rightarrow> ('r, 'o) RigidBodyNode \<Rightarrow> ('r, 'o) SBPositionCache
     \<Rightarrow> ('r, 'o) SBPositionCache" where
  "calcBodyTransforms ext n pc =
     (let pc1 = updX_PB n (compose ext (compose ext (getX_PF n) (getX_FM n pc)) (getX_MB ext n)) pc
      in updX_GB n (compose ext (getX_GP n pc1) (getX_PB n pc1)) pc1)"

definition realizeModel ::
  "('r, 'o) RigidBodyNode \<Rightarrow> ('r, 'o) SBStateDigest \<Rightarrow> ('r, 'o) SBStateDigest" where
  "realizeModel n sbs = sbs"

definition realizeInstance ::
  "('r, 'o) RigidBodyNode \<Rightarrow> ('r, 'o) SBStateDigest \<Rightarrow> ('r, 'o) SBStateDigest" where
  "realizeInstance n sbs = sbs"

definition realizeTime ::
  "('r, 'o) RigidBodyNode \<Rightarrow> ('r, 'o) SBStateDigest \<Rightarrow> ('r, 'o) SBStateDigest" where
  "realizeTime n sbs = sbs"

text \<open>
  \<^verbatim>\<open>realizePosition\<close> in three parts, so that the digest each later call receives has a
  name: the sines, cosines and norms (line 290), the across-joint and body transforms
  (lines 292 to 299), and the Jacobians (lines 302 to 306).
\<close>

definition afterSinCosQNorm ::
  "('r, 'o) Collaborators \<Rightarrow> ('r, 'o) SBStateDigest \<Rightarrow> ('r, 'o) SBStateDigest" where
  "afterSinCosQNorm ext sbs =
     (let pc = positionCache sbs
      in (case calcJointSinCosQNorm ext (modelVars sbs) (modelCache sbs) (instanceCache sbs)
                 (sbsQ sbs) (sq pc, cq pc, sbsQErr sbs, qnorm pc) of
            (sq1, cq1, qErr1, qnorm1) \<Rightarrow>
              sbs\<lparr>sbsQErr := qErr1, positionCache := pc\<lparr>sq := sq1, cq := cq1, qnorm := qnorm1\<rparr>\<rparr>))"

definition afterBodyTransforms ::
  "('r, 'o) Collaborators \<Rightarrow> ('r, 'o) RigidBodyNode \<Rightarrow> ('r, 'o) SBStateDigest
     \<Rightarrow> ('r, 'o) SBStateDigest" where
  "afterBodyTransforms ext n sbs =
     (let sbs1 = afterSinCosQNorm ext sbs;
          sbs2 = (if isReversed n
                  then (let X_MF = calcAcrossJointTransform ext sbs1 (sbsQ sbs1)
                        in sbs1\<lparr>positionCache := updX_FM n (invert ext X_MF) (positionCache sbs1)\<rparr>)
                  else sbs1\<lparr>positionCache :=
                         updX_FM n (calcAcrossJointTransform ext sbs1 (sbsQ sbs1))
                           (positionCache sbs1)\<rparr>)
      in sbs2\<lparr>positionCache := calcBodyTransforms ext n (positionCache sbs2)\<rparr>)"

definition realizePosition ::
  "('r, 'o) Collaborators \<Rightarrow> ('r, 'o) RigidBodyNode \<Rightarrow> ('r, 'o) SBStateDigest
     \<Rightarrow> error + ('r, 'o) SBStateDigest" where
  "realizePosition ext n sbs =
     (let mv = modelVars sbs;
          sbs3 = afterBodyTransforms ext n sbs
      in bindE (updH_FM n (if isReversed n then calcReverseMobilizerH_FM ext sbs3
                           else calcAcrossJointVelocityJacobian ext sbs3)
                  (positionCache sbs3)) (\<lambda>pc4.
         bindE (updH n (calcParentToChildVelocityJacobianInGround ext mv pc4) pc4) (\<lambda>pc5.
         Inr (sbs3\<lparr>positionCache := calcJointIndependentKinematicsPos ext pc5\<rparr>))))"

definition realizeDynamics ::
  "('r::{plus,times}, 'o) Collaborators \<Rightarrow> ('r, 'o) RigidBodyNode \<Rightarrow> ('r, 'o) SBStateDigest
     \<Rightarrow> error + ('r, 'o) SBStateDigest" where
  "realizeDynamics ext n sbs =
     (let mv = modelVars sbs;
          pc = positionCache sbs;
          vc = velocityCache sbs
      in bindE (updHDot_FM n (if isReversed n then calcReverseMobilizerHDot_FM ext sbs
                              else calcAcrossJointVelocityJacobianDot ext sbs)
                  (dynamicsCache sbs)) (\<lambda>dc1.
         bindE (updHDot n (calcParentToChildVelocityJacobianInGroundDot ext mv pc vc dc1) dc1)
           (\<lambda>dc2.
         bindE (calcJointDynamics n pc (sbsU sbs) vc dc2) (\<lambda>dc3.
         Inr (sbs\<lparr>dynamicsCache := calcJointIndependentDynamicsVel ext pc vc dc3\<rparr>)))))"

definition realizeAcceleration ::
  "('r, 'o) RigidBodyNode \<Rightarrow> ('r, 'o) SBStateDigest \<Rightarrow> ('r, 'o) SBStateDigest" where
  "realizeAcceleration n sbs = sbs"

definition realizeReport ::
  "('r, 'o) RigidBodyNode \<Rightarrow> ('r, 'o) SBStateDigest \<Rightarrow> ('r, 'o) SBStateDigest" where
  "realizeReport n sbs = sbs"

subsection \<open>Construction and slot assignment\<close>

text \<open>
  The constructor hands its first arguments to the base class and records the three
  counters as they stand; \<open>base\<close> is the base-class subobject, with the template argument.
\<close>

definition RigidBodyNodeSpec ::
  "('r, 'o) RigidBodyNode \<Rightarrow> nat \<Rightarrow> nat \<Rightarrow> nat \<Rightarrow> ('r, 'o) RigidBodyNode" where
  "RigidBodyNodeSpec base nextUSlot nextUSqSlot nextQSlot =
     base\<lparr>uIndex := nextUSlot, uSqIndex := nextUSqSlot, qIndex := nextQSlot\<rparr>"

definition INT_MAX :: nat where
  "INT_MAX = 2147483647"

definition checkedInt :: "nat \<Rightarrow> error + nat" where
  "checkedInt k = (if k \<le> INT_MAX then Inr k else Inl IndexOverflow)"

text \<open>
  \<^verbatim>\<open>updateSlots\<close> calls the virtual \<^verbatim>\<open>getMaxNQ\<close>: \<open>maxNQ\<close> is the method the node's
  class ends up with, the default above or an override.
\<close>

definition updateSlots ::
  "(('r, 'o) RigidBodyNode \<Rightarrow> error + nat) \<Rightarrow> ('r, 'o) RigidBodyNode \<Rightarrow> nat \<times> nat \<times> nat
     \<Rightarrow> error + (nat \<times> nat \<times> nat)" where
  "updateSlots maxNQ n slots =
     (case slots of (nextUSlot, nextUSqSlot, nextQSlot) \<Rightarrow>
        bindE (checkedInt (nextUSlot + getDOF n)) (\<lambda>nextUSlot'.
        bindE (checkedInt (getDOF n * getDOF n)) (\<lambda>sq.
        bindE (checkedInt (nextUSqSlot + sq)) (\<lambda>nextUSqSlot'.
        bindE (maxNQ n) (\<lambda>m.
        bindE (checkedInt (nextQSlot + m)) (\<lambda>nextQSlot'.
        Inr (nextUSlot', nextUSqSlot', nextQSlot')))))))"

text \<open>
  Modelled from the spec: the tree builder is not part of the sources at hand; slot
  indices "are assigned once, densely, at tree-build time". Each node is constructed on
  the running counters and then advances them with \<^verbatim>\<open>updateSlots\<close>, one node after
  the other.
\<close>

definition createNode ::
  "(('r, 'o) RigidBodyNode \<Rightarrow> error + nat) \<Rightarrow> ('r, 'o) RigidBodyNode \<Rightarrow> nat \<times> nat \<times> nat
     \<Rightarrow> error + (('r, 'o) RigidBodyNode \<times> (nat \<times> nat \<times> nat))" where
  "createNode maxNQ base slots =
     (case slots of (nextUSlot, nextUSqSlot, nextQSlot) \<Rightarrow>
        (let n = RigidBodyNodeSpec base nextUSlot nextUSqSlot nextQSlot
         in bindE (updateSlots maxNQ n slots) (\<lambda>slots'. Inr (n, slots'))))"

fun createNodes ::
  "((('r, 'o) RigidBodyNode \<Rightarrow> error + nat) \<times> ('r, 'o) RigidBodyNode) list \<Rightarrow> nat \<times> nat \<times> nat
     \<Rightarrow> error + (('r, 'o) RigidBodyNode list \<times> (nat \<times> nat \<times> nat))" where
  "createNodes [] slots = Inr ([], slots)"
| "createNodes ((maxNQ, base) # rest) slots =
     bindE (createNode maxNQ base slots) (\<lambda>(n, slots').
     bindE (createNodes rest slots') (\<lambda>(ns, slots''). Inr (n # ns, slots'')))"

subsection \<open>Worked examples\<close>

text \<open>
  A two-mobility node that takes \<open>qdot = u\<close> and uses no quaternion, with its slices in the
  middle of the pooled arrays, and a three-mobility node that may use a quaternion.
\<close>

definition identityTransform :: "real Transform" where
  "identityTransform = \<lparr>T_R = ((1, 0, 0), (0, 1, 0), (0, 0, 1)), T_p = (0, 0, 0)\<rparr>"

definition exampleNode :: "(real, nat) RigidBodyNode" where
  "exampleNode =
     \<lparr>dof = 2, massProps = 0, X_PF = identityTransform, X_BM = identityTransform,
      qdotHandling = QDotIsAlwaysTheSameAsU, quaternionUse = QuaternionIsNeverUsed,
      reversed = False, nodeNum = 1, parentNum = 0, uIndex = 1, uSqIndex = 1, qIndex = 2\<rparr>"

definition exampleBall :: "(real, nat) RigidBodyNode" where
  "exampleBall =
     \<lparr>dof = 3, massProps = 0, X_PF = identityTransform, X_BM = identityTransform,
      qdotHandling = QDotMayDifferFromU, quaternionUse = QuaternionMayBeUsed,
      reversed = False, nodeNum = 2, parentNum = 1, uIndex = 3, uSqIndex = 5, qIndex = 4\<rparr>"

text \<open>
  A one-mobility pin about the z axis of the F frame, as defined and reversed, with a
  position cache whose column of \<open>H_FM\<close> is angular \<open>(0, 0, 1)\<close> and linear
  \<open>(0, 0, 0)\<close> and whose column of \<open>H\<close> differs from it, and a digest with \<open>u = [2]\<close>.
  A second position cache has four columns, of which the two-mobility node above owns
  the middle two, with different entries in \<open>H_FM\<close> and in \<open>H\<close>.
\<close>

definition pinNode :: "(real, nat) RigidBodyNode" where
  "pinNode =
     \<lparr>dof = 1, massProps = 0, X_PF = identityTransform, X_BM = identityTransform,
      qdotHandling = QDotIsAlwaysTheSameAsU, quaternionUse = QuaternionIsNeverUsed,
      reversed = False, nodeNum = 1, parentNum = 0, uIndex = 0, uSqIndex = 0, qIndex = 0\<rparr>"

definition reversedPin :: "(real, nat) RigidBodyNode" where
  "reversedPin =
     pinNode\<lparr>X_PF := \<lparr>T_R = ((1, 0, 0), (0, 1, 0), (0, 0, 1)), T_p = (1, 0, 0)\<rparr>,
             reversed := True\<rparr>"

definition pinPositionCache :: "(real, nat) SBPositionCache" where
  "pinPositionCache =
     \<lparr>sq = [0], cq = [1], qnorm = [0],
      storageForH_FM = [((0, 0, 1), (0, 0, 0))],
      storageForH = [((0, 0, 1), (0, 2, 0))],
      pcX_FM = (\<lambda>_. identityTransform), pcX_PB = (\<lambda>_. identityTransform),
      pcX_GB = (\<lambda>_. \<lparr>T_R = ((1, 0, 0), (0, 1, 0), (0, 0, 1)), T_p = (0, 5, 0)\<rparr>), pcOther = 0\<rparr>"

definition twoColumnPositionCache :: "(real, nat) SBPositionCache" where
  "twoColumnPositionCache =
     \<lparr>sq = [0, 0, 0, 0], cq = [1, 1, 1, 1], qnorm = [0, 0, 0, 0],
      storageForH_FM =
        [((7, 7, 7), (7, 7, 7)), ((0, 0, 1), (1, 0, 0)), ((0, 1, 0), (0, 0, 2)),
         ((8, 8, 8), (8, 8, 8))],
      storageForH =
        [((5, 5, 5), (5, 5, 5)), ((1, 0, 0), (0, 1, 0)), ((0, 0, 1), (0, 0, 0)),
         ((6, 6, 6), (6, 6, 6))],
      pcX_FM = (\<lambda>_. identityTransform), pcX_PB = (\<lambda>_. identityTransform),
      pcX_GB = (\<lambda>_. identityTransform), pcOther = 0\<rparr>"

definition restVelocityCache :: "(real, nat) SBVelocityCache" where
  "restVelocityCache =
     \<lparr>vcV_FM = (\<lambda>_. ((0, 0, 0), (0, 0, 0))), vcV_PB_G = (\<lambda>_. ((0, 0, 0), (0, 0, 0))),
      vcOther = 0\<rparr>"

definition restDynamicsCache :: "(real, nat) SBDynamicsCache" where
  "restDynamicsCache =
     \<lparr>storageForHDot_FM = [((0, 0, 0), (0, 0, 0))], storageForHDot = [((0, 0, 0), (0, 0, 0))],
      dcVD_PB_G = (\<lambda>_. ((0, 0, 0), (0, 0, 0))), dcOther = 0\<rparr>"

definition pinDigest :: "(real, nat) SBStateDigest" where
  "pinDigest =
     \<lparr>modelVars = 0, modelCache = 0, instanceCache = 0,
      sbsQ = [0], sbsU = [2], sbsQErr = [], sbsQDot = [0],
      positionCache = pinPositionCache, velocityCache = restVelocityCache,
      dynamicsCache = restDynamicsCache, accelerationCache = 0\<rparr>"

text \<open>
  Rigid transforms over the reals, for the examples only: composition
  \<open>(R\<^sub>1 R\<^sub>2, p\<^sub>1 + R\<^sub>1 p\<^sub>2)\<close> and inverse \<open>(R\<^sup>T, - R\<^sup>T p)\<close>; and a mobilizer
  whose across-joint transform is a quarter turn about z with a lift of 3.
\<close>

definition dot3 :: "real Vec3 \<Rightarrow> real Vec3 \<Rightarrow> real" where
  "dot3 v w = (case v of (a, b, c) \<Rightarrow> (case w of (x, y, z) \<Rightarrow> a * x + b * y + c * z))"

definition transpose33 :: "real Mat33 \<Rightarrow> real Mat33" where
  "transpose33 m =
     (case m of ((a, b, c), (d, e, f), (g, h, i)) \<Rightarrow> ((a, d, g), (b, e, h), (c, f, i)))"

definition matVec3 :: "real Mat33 \<Rightarrow> real Vec3 \<Rightarrow> real Vec3" where
  "matVec3 m v = (case m of (r1, r2, r3) \<Rightarrow> (dot3 r1 v, dot3 r2 v, dot3 r3 v))"

definition matMul33 :: "real Mat33 \<Rightarrow> real Mat33 \<Rightarrow> real Mat33" where
  "matMul33 m k =
     (case transpose33 k of (c1, c2, c3) \<Rightarrow>
        (case m of (r1, r2, r3) \<Rightarrow>
           ((dot3 r1 c1, dot3 r1 c2, dot3 r1 c3),
            (dot3 r2 c1, dot3 r2 c2, dot3 r2 c3),
            (dot3 r3 c1, dot3 r3 c2, dot3 r3 c3))))"

definition rigidCompose :: "real Transform \<Rightarrow> real Transform \<Rightarrow> real Transform" where
  "rigidCompose X Y =
     \<lparr>T_R = matMul33 (T_R X) (T_R Y), T_p = addVec3 (T_p X) (matVec3 (T_R X) (T_p Y))\<rparr>"

definition rigidInvert :: "real Transform \<Rightarrow> real Transform" where
  "rigidInvert X =
     \<lparr>T_R = transpose33 (T_R X),
      T_p = scaleVec3 (matVec3 (transpose33 (T_R X)) (T_p X)) (- 1)\<rparr>"

definition quarterTurnZ :: "real Transform" where
  "quarterTurnZ = \<lparr>T_R = ((0, - 1, 0), (1, 0, 0), (0, 0, 1)), T_p = (0, 0, 3)\<rparr>"

definition exampleMobilizer :: "(real, nat) Collaborators" where
  "exampleMobilizer =
     \<lparr>compose = rigidCompose,
      invert = rigidInvert,
      calcJointSinCosQNorm = (\<lambda>mv mc ic qv (s, c, e, nq). (map (\<lambda>_. 0) qv, map (\<lambda>_. 1) qv, e, nq)),
      calcAcrossJointTransform = (\<lambda>sbs qv. quarterTurnZ),
      calcAcrossJointVelocityJacobian = (\<lambda>sbs. [((0, 0, 1), (0, 0, 0))]),
      calcAcrossJointVelocityJacobianDot = (\<lambda>sbs. [((0, 0, 0), (0, 1, 0))]),
      calcReverseMobilizerH_FM = (\<lambda>sbs. [((0, 0, - 1), (0, 0, 0))]),
      calcReverseMobilizerHDot_FM = (\<lambda>sbs. [((0, 0, 0), (0, - 1, 0))]),
      calcParentToChildVelocityJacobianInGround = (\<lambda>mv pc. [((0, 0, - 1), (0, 0, 0))]),
      calcParentToChildVelocityJacobianInGroundDot = (\<lambda>mv pc vc dc. [((0, 0, 0), (0, - 1, 0))]),
      calcJointIndependentKinematicsPos = (\<lambda>pc. pc\<lparr>pcOther := Suc (pcOther pc)\<rparr>),
      calcJointIndependentDynamicsVel = (\<lambda>pc vc dc. dc\<lparr>dcOther := Suc (dcOther dc)\<rparr>),
      setQToFitRotationImpl = (\<lambda>sbs R qv. map (\<lambda>_. fst (snd (fst R))) qv),
      setQToFitTranslationImpl = (\<lambda>sbs p qv. map (\<lambda>x. x + snd (snd p)) qv),
      setUToFitAngularVelocityImpl = (\<lambda>sbs qv w uv. map (\<lambda>_. snd (snd w)) uv),
      setUToFitLinearVelocityImpl = (\<lambda>sbs qv v uv. map (\<lambda>x. x + fst v) uv)\<rparr>"

section \<open>Properties\<close>

subsection \<open>Sequencing and slices\<close>

lemma bindE_Inr [simp]: "bindE (Inr x) f = f x"
  by (simp add: bindE_def)

lemma bindE_Inl [simp]: "bindE (Inl e) f = Inl e"
  by (simp add: bindE_def)

lemma assertE_True [simp]: "assertE True = Inr ()"
  by (simp add: assertE_def)

lemma assertE_False [simp]: "assertE False = Inl AssertionFailed"
  by (simp add: assertE_def)

lemma getAs_in_range: "off + n \<le> length a \<Longrightarrow> getAs off n a = Inr (take n (drop off a))"
  by (simp add: getAs_def)

lemma updAs_in_range:
  "off + n \<le> length a \<Longrightarrow> length vals = n \<Longrightarrow>
   updAs off n vals a = Inr (take off a @ vals @ drop (off + n) a)"
  by (simp add: updAs_def)

lemma copy_slice:
  assumes "off + n \<le> length a" and "off' + n \<le> length b"
  shows "bindE (getAs off n a) (\<lambda>vals. updAs off' n vals b)
         = Inr (take off' b @ take n (drop off a) @ drop (off' + n) b)"
  using assms by (simp add: getAs_in_range updAs_in_range)

lemma length_splice:
  "off + length vals \<le> length a \<Longrightarrow> length (take off a @ vals @ drop (off + length vals) a) = length a"
  by simp

lemma nth_splice_inside:
  assumes "off + length vals \<le> length a" and "i < length vals"
  shows "(take off a @ vals @ drop (off + length vals) a) ! (off + i) = vals ! i"
  using assms by (simp add: nth_append)

lemma nth_splice_outside:
  assumes "off + length vals \<le> length a" and "j < length a" and "j < off \<or> off + length vals \<le> j"
  shows "(take off a @ vals @ drop (off + length vals) a) ! j = a ! j"
  using assms by (auto simp: nth_append)

lemma zero_slice:
  assumes "off + k \<le> length a"
  shows "updAs off k (replicate k (0::'a::zero)) a = Inr (take off a @ replicate k 0 @ drop (off + k) a)"
    and "length (take off a @ replicate k (0::'a) @ drop (off + k) a) = length a"
    and "\<forall>j. j < length a \<longrightarrow>
           (take off a @ replicate k (0::'a) @ drop (off + k) a) ! j
             = (if off \<le> j \<and> j < off + k then 0 else a ! j)"
proof -
  show "updAs off k (replicate k (0::'a)) a = Inr (take off a @ replicate k 0 @ drop (off + k) a)"
    using assms by (simp add: updAs_in_range)
  show "length (take off a @ replicate k (0::'a) @ drop (off + k) a) = length a"
    using assms by simp
  show "\<forall>j. j < length a \<longrightarrow>
           (take off a @ replicate k (0::'a) @ drop (off + k) a) ! j
             = (if off \<le> j \<and> j < off + k then 0 else a ! j)"
    using assms by (auto simp: nth_append)
qed

lemma checkedInt_Inr: "checkedInt k = Inr k' \<longleftrightarrow> k \<le> INT_MAX \<and> k' = k"
  by (auto simp: checkedInt_def)

lemma bindE_eq_Inr: "bindE m f = Inr y \<longleftrightarrow> (\<exists>x. m = Inr x \<and> f x = Inr y)"
  by (cases m) simp_all

subsection \<open>The identity mapping from speeds to coordinate derivatives\<close>

text \<open>
  C1. For a node in mode \<open>QDotIsAlwaysTheSameAsU\<close>, the default \<^verbatim>\<open>calcQDot\<close> returns
  \<open>qdot\<close> with the node's \<open>dof\<close> entries from \<open>qIndex\<close> on replaced by the \<open>dof\<close> entries of
  \<open>u\<close> from \<open>uIndex\<close> on, the very values and nothing computed from them, and every other
  entry of \<open>qdot\<close> as it was; the default \<^verbatim>\<open>calcQDotDot\<close> does the same with \<open>udot\<close> and
  \<open>qdotdot\<close>. This holds for every input vector that contains the node's slices. The
  local variants copy the first \<open>dof\<close> entries in the same way.
\<close>

theorem calcQDot_copies_u_slice:
  assumes mode: "qdotHandling n = QDotIsAlwaysTheSameAsU"
    and u_ok: "uIndex n + dof n \<le> length us"
    and q_ok: "qIndex n + dof n \<le> length qd"
  shows "\<exists>qd'. calcQDot n sbs us qd = Inr qd' \<and> calcQDotDot n sbs us qd = Inr qd'
           \<and> qd' = take (qIndex n) qd @ take (dof n) (drop (uIndex n) us) @ drop (qIndex n + dof n) qd
           \<and> length qd' = length qd
           \<and> (\<forall>i. i < dof n \<longrightarrow> qd' ! (qIndex n + i) = us ! (uIndex n + i))
           \<and> (\<forall>j. j < length qd \<longrightarrow> (j < qIndex n \<or> qIndex n + dof n \<le> j) \<longrightarrow> qd' ! j = qd ! j)
           \<and> calcLocalQDotFromLocalU n sbs us qd = Inr (take (dof n) us @ drop (dof n) qd)
           \<and> calcLocalQDotDotFromLocalUDot n sbs us qd = Inr (take (dof n) us @ drop (dof n) qd)"
proof -
  let ?vals = "take (dof n) (drop (uIndex n) us)"
  let ?qd' = "take (qIndex n) qd @ ?vals @ drop (qIndex n + dof n) qd"
  have len: "length ?vals = dof n" using u_ok by simp
  have run: "calcQDot n sbs us qd = Inr ?qd'" "calcQDotDot n sbs us qd = Inr ?qd'"
    using mode u_ok q_ok by (simp_all add: calcQDot_def calcQDotDot_def fromU_def toQ_def copy_slice)
  have l: "length ?qd' = length qd" using q_ok len by simp
  have inside: "\<forall>i. i < dof n \<longrightarrow> ?qd' ! (qIndex n + i) = us ! (uIndex n + i)"
  proof (intro allI impI)
    fix i assume i: "i < dof n"
    have "?qd' ! (qIndex n + i) = ?vals ! i"
      using nth_splice_inside [of "qIndex n" ?vals qd i] q_ok i len by simp
    also have "\<dots> = us ! (uIndex n + i)" using i u_ok by simp
    finally show "?qd' ! (qIndex n + i) = us ! (uIndex n + i)" .
  qed
  have outside: "\<forall>j. j < length qd \<longrightarrow> (j < qIndex n \<or> qIndex n + dof n \<le> j) \<longrightarrow> ?qd' ! j = qd ! j"
    using nth_splice_outside [of "qIndex n" ?vals qd] q_ok len by simp
  have local: "calcLocalQDotFromLocalU n sbs us qd = Inr (take (dof n) us @ drop (dof n) qd)"
    "calcLocalQDotDotFromLocalUDot n sbs us qd = Inr (take (dof n) us @ drop (dof n) qd)"
    using mode u_ok q_ok
    by (simp_all add: calcLocalQDotFromLocalU_def calcLocalQDotDotFromLocalUDot_def
        getAs_in_range updAs_in_range)
  from run l inside outside local show ?thesis by blast
qed

theorem calcQDot_copies_u_slice_witness:
  "qdotHandling exampleNode = QDotIsAlwaysTheSameAsU
   \<and> uIndex exampleNode + dof exampleNode \<le> length [10, 20, 30, 40 :: real]
   \<and> qIndex exampleNode + dof exampleNode \<le> length [1, 2, 3, 4, 5 :: real]
   \<and> calcQDot exampleNode () [10, 20, 30, 40] [1, 2, 3, 4, 5] = Inr [1, 2, 20, 30, 5]
   \<and> calcQDotDot exampleNode () [10, 20, 30, 40] [1, 2, 3, 4, 5] = Inr [1, 2, 20, 30, 5]"
  using calcQDot_copies_u_slice [of exampleNode "[10, 20, 30, 40]" "[1, 2, 3, 4, 5]" "()"]
  by (simp add: exampleNode_def)

text \<open>
  C7. For a node in mode \<open>QDotIsAlwaysTheSameAsU\<close>, the default \<^verbatim>\<open>multiplyByN\<close> and
  \<^verbatim>\<open>multiplyByNInv\<close> copy the first \<open>dof\<close> values of \<open>in\<close> to the first \<open>dof\<close> places
  of \<open>out\<close> unchanged, for both values of \<open>matrixOnRight\<close> and every input array of at
  least \<open>dof\<close> entries; nothing else of \<open>out\<close> changes.
\<close>

theorem multiplyByN_copies:
  assumes mode: "qdotHandling n = QDotIsAlwaysTheSameAsU"
    and in_ok: "dof n \<le> length inp"
    and out_ok: "dof n \<le> length out"
  shows "\<exists>out'. multiplyByN n sbs useEuler qs matrixOnRight inp out = Inr out'
           \<and> multiplyByNInv n sbs useEuler qs matrixOnRight inp out = Inr out'
           \<and> out' = take (dof n) inp @ drop (dof n) out
           \<and> length out' = length out
           \<and> (\<forall>i. i < dof n \<longrightarrow> out' ! i = inp ! i)
           \<and> (\<forall>j. dof n \<le> j \<longrightarrow> j < length out \<longrightarrow> out' ! j = out ! j)"
proof -
  let ?out' = "take (dof n) inp @ drop (dof n) out"
  have run: "multiplyByN n sbs useEuler qs matrixOnRight inp out = Inr ?out'"
    "multiplyByNInv n sbs useEuler qs matrixOnRight inp out = Inr ?out'"
    using assms by (simp_all add: multiplyByN_def multiplyByNInv_def getAs_in_range updAs_in_range)
  have l: "length ?out' = length out" using in_ok out_ok by simp
  have inside: "\<forall>i. i < dof n \<longrightarrow> ?out' ! i = inp ! i"
    using in_ok by (simp add: nth_append)
  have outside: "\<forall>j. dof n \<le> j \<longrightarrow> j < length out \<longrightarrow> ?out' ! j = out ! j"
    using in_ok out_ok by (auto simp: nth_append min_absorb2)
  from run l inside outside show ?thesis by blast
qed

theorem multiplyByN_copies_witness:
  "qdotHandling exampleNode = QDotIsAlwaysTheSameAsU
   \<and> dof exampleNode \<le> length [7, 8, 9 :: real] \<and> dof exampleNode \<le> length [1, 2, 3, 4 :: real]
   \<and> multiplyByN exampleNode () True [] True [7, 8, 9] [1, 2, 3, 4] = Inr [7, 8, 3, 4]
   \<and> multiplyByN exampleNode () True [] False [7, 8, 9] [1, 2, 3, 4] = Inr [7, 8, 3, 4]
   \<and> multiplyByNInv exampleNode () True [] True [7, 8, 9] [1, 2, 3, 4] = Inr [7, 8, 3, 4]
   \<and> multiplyByNInv exampleNode () True [] False [7, 8, 9] [1, 2, 3, 4] = Inr [7, 8, 3, 4]"
  using multiplyByN_copies [of exampleNode "[7, 8, 9]" "[1, 2, 3, 4]" "()" True "[]" True]
    multiplyByN_copies [of exampleNode "[7, 8, 9]" "[1, 2, 3, 4]" "()" True "[]" False]
  by (simp add: exampleNode_def)

subsection \<open>Coordinate counts and quaternions\<close>

lemma copyQ_never_asserts:
  assumes "quaternionUse n = QuaternionIsNeverUsed"
  shows "copyQ n mv qIn qs \<noteq> Inl AssertionFailed"
proof (cases "qIndex n + dof n \<le> length qIn")
  case True
  then show ?thesis
    using assms by (simp add: copyQ_def fromQ_def toQ_def getAs_def updAs_def)
next
  case False
  then show ?thesis
    using assms by (simp add: copyQ_def fromQ_def getAs_def)
qed

text \<open>
  C6. For a node whose quaternion-use mode is \<open>QuaternionIsNeverUsed\<close>, the assertion in
  each of the defaults \<^verbatim>\<open>getMaxNQ\<close>, \<^verbatim>\<open>getNQInUse\<close>, \<^verbatim>\<open>copyQ\<close>,
  \<^verbatim>\<open>isUsingQuaternion\<close> and \<^verbatim>\<open>enforceQuaternionConstraints\<close> holds, and
  \<^verbatim>\<open>getMaxNQ\<close> and \<^verbatim>\<open>getNQInUse\<close> return exactly \<open>dof\<close>. For a node in any other
  mode each of the five fails its assertion.
\<close>

theorem quaternion_defaults:
  "(quaternionUse n = QuaternionIsNeverUsed \<longrightarrow>
      getMaxNQ n = Inr (dof n)
      \<and> getNQInUse n mv = Inr (dof n)
      \<and> isUsingQuaternion n sbs = Inr (False, None)
      \<and> enforceQuaternionConstraints n sbs qs qErrest = Inr (False, qs, qErrest)
      \<and> copyQ n mv qIn qs \<noteq> Inl AssertionFailed
      \<and> (qIndex n + dof n \<le> length qIn \<and> qIndex n + dof n \<le> length qs \<longrightarrow>
           copyQ n mv qIn qs
             = Inr (take (qIndex n) qs @ take (dof n) (drop (qIndex n) qIn)
                    @ drop (qIndex n + dof n) qs)))
   \<and> (quaternionUse n \<noteq> QuaternionIsNeverUsed \<longrightarrow>
      getMaxNQ n = Inl AssertionFailed
      \<and> getNQInUse n mv = Inl AssertionFailed
      \<and> isUsingQuaternion n sbs = Inl AssertionFailed
      \<and> enforceQuaternionConstraints n sbs qs qErrest = Inl AssertionFailed
      \<and> copyQ n mv qIn qs = Inl AssertionFailed)"
proof (cases "quaternionUse n = QuaternionIsNeverUsed")
  case True
  have "getMaxNQ n = Inr (dof n)" "getNQInUse n mv = Inr (dof n)"
    "isUsingQuaternion n sbs = Inr (False, None)"
    "enforceQuaternionConstraints n sbs qs qErrest = Inr (False, qs, qErrest)"
    using True
    by (simp_all add: getMaxNQ_def getNQInUse_def isUsingQuaternion_def
        enforceQuaternionConstraints_def)
  moreover have "copyQ n mv qIn qs \<noteq> Inl AssertionFailed"
    using True by (rule copyQ_never_asserts)
  moreover have "qIndex n + dof n \<le> length qIn \<and> qIndex n + dof n \<le> length qs \<longrightarrow>
           copyQ n mv qIn qs
             = Inr (take (qIndex n) qs @ take (dof n) (drop (qIndex n) qIn)
                    @ drop (qIndex n + dof n) qs)"
    using True by (simp add: copyQ_def fromQ_def toQ_def copy_slice)
  ultimately show ?thesis using True by blast
next
  case False
  then show ?thesis
    by (simp add: getMaxNQ_def getNQInUse_def isUsingQuaternion_def
        enforceQuaternionConstraints_def copyQ_def)
qed

theorem quaternion_defaults_witness:
  "quaternionUse exampleNode = QuaternionIsNeverUsed
   \<and> getMaxNQ exampleNode = Inr 2 \<and> getNQInUse exampleNode () = Inr 2
   \<and> isUsingQuaternion exampleNode () = Inr (False, None)
   \<and> enforceQuaternionConstraints exampleNode () [1, 2, 3, 4 :: real] [0 :: real]
       = Inr (False, [1, 2, 3, 4], [0])
   \<and> qIndex exampleNode + dof exampleNode \<le> length [6, 7, 8, 9 :: real]
   \<and> qIndex exampleNode + dof exampleNode \<le> length [1, 2, 3, 4 :: real]
   \<and> copyQ exampleNode () [6, 7, 8, 9] [1, 2, 3, 4] = Inr [1, 2, 8, 9]
   \<and> quaternionUse exampleBall \<noteq> QuaternionIsNeverUsed
   \<and> getMaxNQ exampleBall = Inl AssertionFailed
   \<and> getNQInUse exampleBall () = Inl AssertionFailed
   \<and> isUsingQuaternion exampleBall () = Inl AssertionFailed
   \<and> enforceQuaternionConstraints exampleBall () [1, 2, 3, 4 :: real] [0 :: real]
       = Inl AssertionFailed
   \<and> copyQ exampleBall () [6, 7, 8, 9] [1, 2, 3, 4] = Inl AssertionFailed"
  using quaternion_defaults [of exampleNode "()" "()" "[1, 2, 3, 4]" "[0]" "[6, 7, 8, 9]"]
    quaternion_defaults [of exampleBall "()" "()" "[1, 2, 3, 4]" "[0]" "[6, 7, 8, 9]"]
  by (simp add: exampleNode_def exampleBall_def)

subsection \<open>Default-value installers\<close>

text \<open>
  C10. The default \<^verbatim>\<open>setMobilizerDefaultPositionValues\<close> writes zero into exactly the
  \<open>dof\<close> entries of \<open>q\<close> from \<open>qIndex\<close> on, and the default
  \<^verbatim>\<open>setMobilizerDefaultVelocityValues\<close> into exactly the \<open>dof\<close> entries of \<open>u\<close> from
  \<open>uIndex\<close> on; every other entry keeps its value. The default installers of the Model,
  Instance, Time, Dynamics and Acceleration stages return what they were given.
\<close>

theorem default_installers_frame:
  "(qIndex n + dof n \<le> length qs \<longrightarrow>
      (\<exists>qs'. setMobilizerDefaultPositionValues n mv qs = Inr qs' \<and> length qs' = length qs
         \<and> (\<forall>j. j < length qs \<longrightarrow>
               qs' ! j = (if qIndex n \<le> j \<and> j < qIndex n + dof n then 0 else qs ! j))))
   \<and> (uIndex n + dof n \<le> length us \<longrightarrow>
      (\<exists>us'. setMobilizerDefaultVelocityValues n mv us = Inr us' \<and> length us' = length us
         \<and> (\<forall>j. j < length us \<longrightarrow>
               us' ! j = (if uIndex n \<le> j \<and> j < uIndex n + dof n then 0 else us ! j))))
   \<and> setMobilizerDefaultModelValues n tc mv = mv
   \<and> setMobilizerDefaultInstanceValues n mv iv = iv
   \<and> setMobilizerDefaultTimeValues n mv tv = tv
   \<and> setMobilizerDefaultDynamicsValues n mv dv = dv
   \<and> setMobilizerDefaultAccelerationValues n mv dv = dv"
proof -
  have pos: "qIndex n + dof n \<le> length qs \<longrightarrow>
      (\<exists>qs'. setMobilizerDefaultPositionValues n mv qs = Inr qs' \<and> length qs' = length qs
         \<and> (\<forall>j. j < length qs \<longrightarrow>
               qs' ! j = (if qIndex n \<le> j \<and> j < qIndex n + dof n then 0 else qs ! j)))"
    unfolding setMobilizerDefaultPositionValues_def toQ_def
    using zero_slice [of "qIndex n" "dof n" qs] by blast
  have vel: "uIndex n + dof n \<le> length us \<longrightarrow>
      (\<exists>us'. setMobilizerDefaultVelocityValues n mv us = Inr us' \<and> length us' = length us
         \<and> (\<forall>j. j < length us \<longrightarrow>
               us' ! j = (if uIndex n \<le> j \<and> j < uIndex n + dof n then 0 else us ! j)))"
    unfolding setMobilizerDefaultVelocityValues_def toU_def
    using zero_slice [of "uIndex n" "dof n" us] by blast
  have rest: "setMobilizerDefaultModelValues n tc mv = mv"
    "setMobilizerDefaultInstanceValues n mv iv = iv"
    "setMobilizerDefaultTimeValues n mv tv = tv"
    "setMobilizerDefaultDynamicsValues n mv dv = dv"
    "setMobilizerDefaultAccelerationValues n mv dv = dv"
    by (simp_all add: setMobilizerDefaultModelValues_def setMobilizerDefaultInstanceValues_def
        setMobilizerDefaultTimeValues_def setMobilizerDefaultDynamicsValues_def
        setMobilizerDefaultAccelerationValues_def)
  from pos vel rest show ?thesis by blast
qed

theorem default_installers_frame_witness:
  "qIndex exampleNode + dof exampleNode \<le> length [1, 2, 3, 4, 5 :: real]
   \<and> setMobilizerDefaultPositionValues exampleNode () [1, 2, 3, 4, 5] = Inr [1, 2, 0, 0, 5]
   \<and> uIndex exampleNode + dof exampleNode \<le> length [1, 2, 3, 4 :: real]
   \<and> setMobilizerDefaultVelocityValues exampleNode () [1, 2, 3, 4] = Inr [1, 0, 0, 4]"
  using default_installers_frame [of exampleNode "[1, 2, 3, 4, 5]" "()" "[1, 2, 3, 4]"]
  by (simp add: exampleNode_def setMobilizerDefaultPositionValues_def
      setMobilizerDefaultVelocityValues_def toQ_def toU_def updAs_def numeral_2_eq_2)

subsection \<open>Stages without computation\<close>

text \<open>
  C9. \<^verbatim>\<open>realizeModel\<close>, \<^verbatim>\<open>realizeInstance\<close>, \<^verbatim>\<open>realizeTime\<close>,
  \<^verbatim>\<open>realizeAcceleration\<close> and \<^verbatim>\<open>realizeReport\<close> compute nothing: each returns the
  digest, with every cache and every state variable in it, as it was given. The methods
  are const, so the node's attributes cannot change either.
\<close>

theorem realize_hooks_do_nothing:
  "realizeModel n sbs = sbs \<and> realizeInstance n sbs = sbs \<and> realizeTime n sbs = sbs
   \<and> realizeAcceleration n sbs = sbs \<and> realizeReport n sbs = sbs"
  by (simp add: realizeModel_def realizeInstance_def realizeTime_def realizeAcceleration_def
      realizeReport_def)

subsection \<open>Composed fitting defaults\<close>

text \<open>
  C5. The default \<^verbatim>\<open>setQToFitTransformImpl\<close> is \<^verbatim>\<open>setQToFitRotationImpl\<close> on the
  rotation of the target transform followed by \<^verbatim>\<open>setQToFitTranslationImpl\<close> on its
  translation; the default \<^verbatim>\<open>setUToFitVelocityImpl\<close> is
  \<^verbatim>\<open>setUToFitAngularVelocityImpl\<close> on the angular part followed by
  \<^verbatim>\<open>setUToFitLinearVelocityImpl\<close> on the linear part; for every transform and every
  spatial velocity.
\<close>

theorem fit_defaults_compose:
  "setQToFitTransformImpl ext sbs X
     = setQToFitTranslationImpl ext sbs (T_p X) \<circ> setQToFitRotationImpl ext sbs (T_R X)
   \<and> setUToFitVelocityImpl ext sbs qs V
     = setUToFitLinearVelocityImpl ext sbs qs (snd V) \<circ> setUToFitAngularVelocityImpl ext sbs qs (fst V)"
  by (simp add: fun_eq_iff setQToFitTransformImpl_def setUToFitVelocityImpl_def)

theorem fit_defaults_compose_witness:
  "setQToFitTransformImpl exampleMobilizer pinDigest quarterTurnZ [7] = [2]
   \<and> setUToFitVelocityImpl exampleMobilizer pinDigest [0] ((0, 0, 2), (5, 0, 0)) [7] = [7]"
  using fit_defaults_compose [of exampleMobilizer pinDigest quarterTurnZ "[0]" "((0, 0, 2), (5, 0, 0))"]
  by (simp add: exampleMobilizer_def quarterTurnZ_def)

subsection \<open>Jacobian times speeds\<close>

lemma rowTimesVec_defined:
  assumes "length r = length v" and "0 < length v"
  shows "\<exists>x. rowTimesVec r v = Inr x"
proof -
  from assms obtain r0 rs v0 vs where rv: "r = r0 # rs" "v = v0 # vs"
    by (cases r; cases v) auto
  have "rowTimesVec r v
        = Inr (foldl (\<lambda>s (ri, vi). addVec3 s (scaleVec3 ri vi)) (scaleVec3 r0 v0) (zip rs vs))"
    using assms rv by (simp add: rowTimesVec_def)
  then show ?thesis by (rule exI)
qed

lemma HTimesVec_defined:
  assumes "length h = length v" and "0 < length v"
  shows "\<exists>x. HTimesVec h v = Inr x"
proof -
  obtain a where a: "rowTimesVec (map fst h) v = Inr a"
    using rowTimesVec_defined [of "map fst h" v] assms by auto
  obtain b where b: "rowTimesVec (map snd h) v = Inr b"
    using rowTimesVec_defined [of "map snd h" v] assms by auto
  have "HTimesVec h v = Inr (a, b)" by (simp add: HTimesVec_def a b)
  then show ?thesis by (rule exI)
qed

text \<open>
  Over a semiring the modelled product is the matrix product of the textbooks: each
  component of a row times a vector is the sum of the products of the entries.
\<close>

lemma foldl_rows_sum:
  fixes x y z :: "'r::semiring_0"
  shows "foldl (\<lambda>s (ri, vi). addVec3 s (scaleVec3 ri vi)) (x, y, z) rest
         = (x + (\<Sum>(ri, vi)\<leftarrow>rest. fst ri * vi),
            y + (\<Sum>(ri, vi)\<leftarrow>rest. fst (snd ri) * vi),
            z + (\<Sum>(ri, vi)\<leftarrow>rest. snd (snd ri) * vi))"
  by (induction rest arbitrary: x y z)
     (auto simp: addVec3_def scaleVec3_def add.assoc split: prod.splits)

lemma rowTimesVec_is_sum:
  fixes r :: "('r::semiring_0) Vec3 list"
  assumes "length r = length v" and "0 < length v"
  shows "rowTimesVec r v
         = Inr ((\<Sum>(ri, vi)\<leftarrow>zip r v. fst ri * vi),
                (\<Sum>(ri, vi)\<leftarrow>zip r v. fst (snd ri) * vi),
                (\<Sum>(ri, vi)\<leftarrow>zip r v. snd (snd ri) * vi))"
proof -
  from assms obtain r0 rs v0 vs where rv: "r = r0 # rs" "v = v0 # vs"
    by (cases r; cases v) auto
  obtain a b c where r0: "r0 = (a, b, c)" by (cases r0)
  have first: "scaleVec3 r0 v0 = (a * v0, b * v0, c * v0)"
    by (simp add: r0 scaleVec3_def)
  have "rowTimesVec r v
        = Inr (foldl (\<lambda>s (ri, vi). addVec3 s (scaleVec3 ri vi)) (scaleVec3 r0 v0) (zip rs vs))"
    using assms by (simp add: rv rowTimesVec_def)
  then show ?thesis
    unfolding first foldl_rows_sum by (simp add: rv r0)
qed

text \<open>
  C2. For every node with at least one mobility and every \<open>u\<close>, \<^verbatim>\<open>calcJointKinematicsVel\<close>
  returns, and in the cache it returns \<open>V_FM\<close> of the node is the product of the \<open>dof\<close>
  columns of \<^verbatim>\<open>storageForH_FM\<close> from \<open>uIndex\<close> on with the \<open>dof\<close> entries of \<open>u\<close> from
  \<open>uIndex\<close> on, and \<open>V_PB_G\<close> is the product of the \<open>dof\<close> columns of \<^verbatim>\<open>storageForH\<close>
  from \<open>uIndex\<close> on with the same entries of \<open>u\<close>: exactly what the product returns.
  The three accessors deliver these very blocks, and no other node's velocity entry
  changes. In particular a one-mobility node whose Jacobian column is angular
  \<open>(0, 0, 1)\<close> and linear \<open>(0, 0, 0)\<close>, given \<open>u = [2]\<close>, gets the relative angular
  velocity \<open>(0, 0, 2)\<close> and the relative linear velocity \<open>(0, 0, 0)\<close>; this instance
  and a two-mobility one, whose slices start at index 1 and whose \<open>H_FM\<close> and \<open>H\<close>
  differ, are proved right after.
\<close>

theorem calcJointKinematicsVel_is_H_times_u:
  assumes dof_pos: "0 < dof n"
    and u_ok: "uIndex n + dof n \<le> length us"
    and hfm_ok: "uIndex n + dof n \<le> length (storageForH_FM pc)"
    and h_ok: "uIndex n + dof n \<le> length (storageForH pc)"
  shows "\<exists>vc'. calcJointKinematicsVel n pc us vc = Inr vc'
           \<and> getH_FM n pc = Inr (take (dof n) (drop (uIndex n) (storageForH_FM pc)))
           \<and> getH n pc = Inr (take (dof n) (drop (uIndex n) (storageForH pc)))
           \<and> fromU n us = Inr (take (dof n) (drop (uIndex n) us))
           \<and> HTimesVec (take (dof n) (drop (uIndex n) (storageForH_FM pc)))
                 (take (dof n) (drop (uIndex n) us)) = Inr (getV_FM n vc')
           \<and> HTimesVec (take (dof n) (drop (uIndex n) (storageForH pc)))
                 (take (dof n) (drop (uIndex n) us)) = Inr (getV_PB_G n vc')
           \<and> (\<forall>k. k \<noteq> nodeNum n \<longrightarrow> vcV_FM vc' k = vcV_FM vc k \<and> vcV_PB_G vc' k = vcV_PB_G vc k)
           \<and> vcOther vc' = vcOther vc"
proof -
  let ?w = "take (dof n) (drop (uIndex n) us)"
  let ?h_fm = "take (dof n) (drop (uIndex n) (storageForH_FM pc))"
  let ?h = "take (dof n) (drop (uIndex n) (storageForH pc))"
  have w: "fromU n us = Inr ?w" using u_ok by (simp add: fromU_def getAs_in_range)
  have hfm: "getH_FM n pc = Inr ?h_fm" using hfm_ok by (simp add: getH_FM_def getAs_in_range)
  have h: "getH n pc = Inr ?h" using h_ok by (simp add: getH_def getAs_in_range)
  have lw: "length ?w = dof n" using u_ok by simp
  have "length ?h_fm = length ?w" using hfm_ok u_ok by simp
  with lw dof_pos have "\<exists>x. HTimesVec ?h_fm ?w = Inr x"
    by (intro HTimesVec_defined) simp_all
  then obtain v_fm where v_fm: "HTimesVec ?h_fm ?w = Inr v_fm" ..
  have "length ?h = length ?w" using h_ok u_ok by simp
  with lw dof_pos have "\<exists>x. HTimesVec ?h ?w = Inr x"
    by (intro HTimesVec_defined) simp_all
  then obtain v_pb_g where v_pb_g: "HTimesVec ?h ?w = Inr v_pb_g" ..
  let ?vc' = "updV_PB_G n v_pb_g (updV_FM n v_fm vc)"
  have run: "calcJointKinematicsVel n pc us vc = Inr ?vc'"
    by (simp add: calcJointKinematicsVel_def w hfm h v_fm v_pb_g)
  have stored: "getV_FM n ?vc' = v_fm" "getV_PB_G n ?vc' = v_pb_g"
    by (simp_all add: getV_FM_def getV_PB_G_def updV_FM_def updV_PB_G_def)
  have frame: "\<forall>k. k \<noteq> nodeNum n \<longrightarrow> vcV_FM ?vc' k = vcV_FM vc k \<and> vcV_PB_G ?vc' k = vcV_PB_G vc k"
    "vcOther ?vc' = vcOther vc"
    by (simp_all add: updV_FM_def updV_PB_G_def)
  have fm: "HTimesVec ?h_fm ?w = Inr (getV_FM n ?vc')" using v_fm stored by simp
  have pb: "HTimesVec ?h ?w = Inr (getV_PB_G n ?vc')" using v_pb_g stored by simp
  from run hfm h w fm pb frame show ?thesis by blast
qed

theorem calcJointKinematicsVel_is_H_times_u_witness:
  "0 < dof pinNode \<and> uIndex pinNode + dof pinNode \<le> length [2 :: real]
   \<and> uIndex pinNode + dof pinNode \<le> length (storageForH_FM pinPositionCache)
   \<and> uIndex pinNode + dof pinNode \<le> length (storageForH pinPositionCache)
   \<and> getH_FM pinNode pinPositionCache = Inr [((0, 0, 1), (0, 0, 0))]
   \<and> fromU pinNode [2 :: real] = Inr [2]
   \<and> (\<exists>vc'. calcJointKinematicsVel pinNode pinPositionCache [2] restVelocityCache = Inr vc'
         \<and> getV_FM pinNode vc' = ((0, 0, 2), (0, 0, 0))
         \<and> getV_PB_G pinNode vc' = ((0, 0, 2), (0, 4, 0)))
   \<and> 0 < dof exampleNode \<and> uIndex exampleNode + dof exampleNode \<le> length [9, 2, 3, 4 :: real]
   \<and> uIndex exampleNode + dof exampleNode \<le> length (storageForH_FM twoColumnPositionCache)
   \<and> uIndex exampleNode + dof exampleNode \<le> length (storageForH twoColumnPositionCache)
   \<and> getH_FM exampleNode twoColumnPositionCache
       = Inr [((0, 0, 1), (1, 0, 0)), ((0, 1, 0), (0, 0, 2))]
   \<and> getH exampleNode twoColumnPositionCache
       = Inr [((1, 0, 0), (0, 1, 0)), ((0, 0, 1), (0, 0, 0))]
   \<and> fromU exampleNode [9, 2, 3, 4 :: real] = Inr [2, 3]
   \<and> (\<exists>vc'. calcJointKinematicsVel exampleNode twoColumnPositionCache [9, 2, 3, 4]
               restVelocityCache = Inr vc'
         \<and> getV_FM exampleNode vc' = ((0, 3, 2), (2, 0, 6))
         \<and> getV_PB_G exampleNode vc' = ((2, 0, 3), (0, 2, 0))
         \<and> vcV_FM vc' 0 = ((0, 0, 0), (0, 0, 0)))"
proof -
  have pin_h: "take (dof pinNode) (drop (uIndex pinNode) (storageForH_FM pinPositionCache))
                 = [((0, 0, 1), (0, 0, 0))]"
    "take (dof pinNode) (drop (uIndex pinNode) (storageForH pinPositionCache))
                 = [((0, 0, 1), (0, 2, 0))]"
    "take (dof pinNode) (drop (uIndex pinNode) [2 :: real]) = [2]"
    by (simp_all add: pinNode_def pinPositionCache_def)
  have two_h: "take (dof exampleNode) (drop (uIndex exampleNode) (storageForH_FM twoColumnPositionCache))
                 = [((0, 0, 1), (1, 0, 0)), ((0, 1, 0), (0, 0, 2))]"
    "take (dof exampleNode) (drop (uIndex exampleNode) (storageForH twoColumnPositionCache))
                 = [((1, 0, 0), (0, 1, 0)), ((0, 0, 1), (0, 0, 0))]"
    "take (dof exampleNode) (drop (uIndex exampleNode) [9, 2, 3, 4 :: real]) = [2, 3]"
    by (simp_all add: exampleNode_def twoColumnPositionCache_def)
  have prods: "HTimesVec [((0, 0, 1), (0, 0, 0))] [2 :: real] = Inr ((0, 0, 2), (0, 0, 0))"
    "HTimesVec [((0, 0, 1), (0, 2, 0))] [2 :: real] = Inr ((0, 0, 2), (0, 4, 0))"
    "HTimesVec [((0, 0, 1), (1, 0, 0)), ((0, 1, 0), (0, 0, 2))] [2, 3 :: real]
       = Inr ((0, 3, 2), (2, 0, 6))"
    "HTimesVec [((1, 0, 0), (0, 1, 0)), ((0, 0, 1), (0, 0, 0))] [2, 3 :: real]
       = Inr ((2, 0, 3), (0, 2, 0))"
    by (simp_all add: HTimesVec_def rowTimesVec_def scaleVec3_def addVec3_def)
  have bounds: "0 < dof pinNode" "uIndex pinNode + dof pinNode \<le> length [2 :: real]"
    "uIndex pinNode + dof pinNode \<le> length (storageForH_FM pinPositionCache)"
    "uIndex pinNode + dof pinNode \<le> length (storageForH pinPositionCache)"
    "0 < dof exampleNode" "uIndex exampleNode + dof exampleNode \<le> length [9, 2, 3, 4 :: real]"
    "uIndex exampleNode + dof exampleNode \<le> length (storageForH_FM twoColumnPositionCache)"
    "uIndex exampleNode + dof exampleNode \<le> length (storageForH twoColumnPositionCache)"
    by (simp_all add: pinNode_def pinPositionCache_def exampleNode_def twoColumnPositionCache_def)
  from calcJointKinematicsVel_is_H_times_u [OF bounds(1-4), of restVelocityCache]
  obtain vc1 where run1: "calcJointKinematicsVel pinNode pinPositionCache [2] restVelocityCache = Inr vc1"
    and acc1: "getH_FM pinNode pinPositionCache = Inr [((0, 0, 1), (0, 0, 0))]"
      "fromU pinNode [2 :: real] = Inr [2]"
    and fm1: "getV_FM pinNode vc1 = ((0, 0, 2), (0, 0, 0))"
    and pb1: "getV_PB_G pinNode vc1 = ((0, 0, 2), (0, 4, 0))"
    unfolding pin_h prods by auto
  from calcJointKinematicsVel_is_H_times_u [OF bounds(5-8), of restVelocityCache]
  obtain vc2 where
    run2: "calcJointKinematicsVel exampleNode twoColumnPositionCache [9, 2, 3, 4] restVelocityCache
             = Inr vc2"
    and acc2: "getH_FM exampleNode twoColumnPositionCache
                 = Inr [((0, 0, 1), (1, 0, 0)), ((0, 1, 0), (0, 0, 2))]"
      "getH exampleNode twoColumnPositionCache
                 = Inr [((1, 0, 0), (0, 1, 0)), ((0, 0, 1), (0, 0, 0))]"
      "fromU exampleNode [9, 2, 3, 4 :: real] = Inr [2, 3]"
    and fm2: "getV_FM exampleNode vc2 = ((0, 3, 2), (2, 0, 6))"
    and pb2: "getV_PB_G exampleNode vc2 = ((2, 0, 3), (0, 2, 0))"
    and other2: "\<forall>k. k \<noteq> nodeNum exampleNode \<longrightarrow> vcV_FM vc2 k = vcV_FM restVelocityCache k"
    unfolding two_h prods by auto
  have "vcV_FM vc2 0 = ((0, 0, 0), (0, 0, 0))"
    using other2 by (simp add: exampleNode_def restVelocityCache_def)
  with bounds run1 acc1 fm1 pb1 run2 acc2 fm2 pb2 show ?thesis by blast
qed

subsection \<open>The position and dynamics stages\<close>

lemma afterSinCosQNorm_keeps [simp]:
  "sbsQ (afterSinCosQNorm ext sbs) = sbsQ sbs"
  "modelVars (afterSinCosQNorm ext sbs) = modelVars sbs"
  "storageForH_FM (positionCache (afterSinCosQNorm ext sbs)) = storageForH_FM (positionCache sbs)"
  "storageForH (positionCache (afterSinCosQNorm ext sbs)) = storageForH (positionCache sbs)"
  "pcX_FM (positionCache (afterSinCosQNorm ext sbs)) = pcX_FM (positionCache sbs)"
  "pcX_PB (positionCache (afterSinCosQNorm ext sbs)) = pcX_PB (positionCache sbs)"
  "pcX_GB (positionCache (afterSinCosQNorm ext sbs)) = pcX_GB (positionCache sbs)"
  by (simp_all add: afterSinCosQNorm_def Let_def split: prod.splits)

lemma calcBodyTransforms_keeps [simp]:
  "storageForH_FM (calcBodyTransforms ext n pc) = storageForH_FM pc"
  "storageForH (calcBodyTransforms ext n pc) = storageForH pc"
  "pcX_FM (calcBodyTransforms ext n pc) = pcX_FM pc"
  by (simp_all add: calcBodyTransforms_def Let_def updX_PB_def updX_GB_def)

lemma calcBodyTransforms_X_PB:
  "getX_PB n (calcBodyTransforms ext n pc)
     = compose ext (compose ext (X_PF n) (getX_FM n pc)) (getX_MB ext n)"
  by (simp add: calcBodyTransforms_def Let_def updX_PB_def updX_GB_def getX_PB_def getX_PF_def)

lemma calcBodyTransforms_X_GB:
  "getX_GB n (calcBodyTransforms ext n pc)
     = compose ext (getX_GP n pc) (getX_PB n (calcBodyTransforms ext n pc))"
  by (simp add: calcBodyTransforms_def Let_def updX_PB_def updX_GB_def getX_PB_def getX_GB_def
      getX_GP_def)

lemma afterBodyTransforms_keeps [simp]:
  "modelVars (afterBodyTransforms ext n sbs) = modelVars sbs"
  "storageForH_FM (positionCache (afterBodyTransforms ext n sbs)) = storageForH_FM (positionCache sbs)"
  "storageForH (positionCache (afterBodyTransforms ext n sbs)) = storageForH (positionCache sbs)"
  by (simp_all add: afterBodyTransforms_def Let_def updX_FM_def)

lemma afterBodyTransforms_X_FM:
  "getX_FM n (positionCache (afterBodyTransforms ext n sbs))
     = (if reversed n
        then invert ext (calcAcrossJointTransform ext (afterSinCosQNorm ext sbs) (sbsQ sbs))
        else calcAcrossJointTransform ext (afterSinCosQNorm ext sbs) (sbsQ sbs))"
  by (simp add: afterBodyTransforms_def Let_def updX_FM_def getX_FM_def isReversed_def)

lemma afterBodyTransforms_X_PB:
  "getX_PB n (positionCache (afterBodyTransforms ext n sbs))
     = compose ext
         (compose ext (X_PF n) (getX_FM n (positionCache (afterBodyTransforms ext n sbs))))
         (getX_MB ext n)"
  by (simp add: afterBodyTransforms_def Let_def calcBodyTransforms_X_PB getX_FM_def)

lemma afterBodyTransforms_X_GB:
  "getX_GB n (positionCache (afterBodyTransforms ext n sbs))
     = compose ext (getX_GP n (positionCache sbs))
         (getX_PB n (positionCache (afterBodyTransforms ext n sbs)))"
  by (simp add: afterBodyTransforms_def Let_def calcBodyTransforms_X_GB getX_GP_def updX_FM_def)

lemma realizePosition_returns:
  assumes hfm_ok: "uIndex n + dof n \<le> length (storageForH_FM (positionCache sbs))"
    and h_ok: "uIndex n + dof n \<le> length (storageForH (positionCache sbs))"
    and len_fm: "length (if reversed n then calcReverseMobilizerH_FM ext (afterBodyTransforms ext n sbs)
                         else calcAcrossJointVelocityJacobian ext (afterBodyTransforms ext n sbs)) = dof n"
    and len_h: "\<forall>mv pc. length (calcParentToChildVelocityJacobianInGround ext mv pc) = dof n"
  shows "\<exists>s1 s2.
     realizePosition ext n sbs
       = Inr ((afterBodyTransforms ext n sbs)\<lparr>positionCache :=
            calcJointIndependentKinematicsPos ext
              ((positionCache (afterBodyTransforms ext n sbs))\<lparr>storageForH_FM := s1, storageForH := s2\<rparr>)\<rparr>)
     \<and> getAs (uIndex n) (dof n) s1
         = Inr (if reversed n then calcReverseMobilizerH_FM ext (afterBodyTransforms ext n sbs)
                else calcAcrossJointVelocityJacobian ext (afterBodyTransforms ext n sbs))"
proof -
  let ?sbs3 = "afterBodyTransforms ext n sbs"
  let ?hfm = "if reversed n then calcReverseMobilizerH_FM ext ?sbs3
              else calcAcrossJointVelocityJacobian ext ?sbs3"
  let ?s1 = "take (uIndex n) (storageForH_FM (positionCache sbs)) @ ?hfm
             @ drop (uIndex n + dof n) (storageForH_FM (positionCache sbs))"
  let ?pc4 = "(positionCache ?sbs3)\<lparr>storageForH_FM := ?s1\<rparr>"
  let ?h = "calcParentToChildVelocityJacobianInGround ext (modelVars sbs) ?pc4"
  let ?s2 = "take (uIndex n) (storageForH (positionCache sbs)) @ ?h
             @ drop (uIndex n + dof n) (storageForH (positionCache sbs))"
  have step1: "updH_FM n ?hfm (positionCache ?sbs3) = Inr ?pc4"
    using hfm_ok len_fm by (simp add: updH_FM_def updAs_in_range)
  have step2: "updH n ?h ?pc4 = Inr (?pc4\<lparr>storageForH := ?s2\<rparr>)"
    using h_ok len_h by (simp add: updH_def updAs_in_range)
  have run: "realizePosition ext n sbs
       = Inr (?sbs3\<lparr>positionCache :=
            calcJointIndependentKinematicsPos ext
              ((positionCache ?sbs3)\<lparr>storageForH_FM := ?s1, storageForH := ?s2\<rparr>)\<rparr>)"
    unfolding realizePosition_def Let_def isReversed_def
    using step1 step2 by simp
  have "length ?hfm = dof n" using len_fm by simp
  then have block: "getAs (uIndex n) (dof n) ?s1 = Inr ?hfm"
    using hfm_ok by (simp add: getAs_def)
  from run block show ?thesis by blast
qed

lemma afterSinCosQNorm_as_defined_unused:
  "afterSinCosQNorm (ext\<lparr>calcAcrossJointVelocityJacobian := f\<rparr>) sbs = afterSinCosQNorm ext sbs"
  by (simp add: afterSinCosQNorm_def Let_def)

lemma calcBodyTransforms_as_defined_unused:
  "calcBodyTransforms (ext\<lparr>calcAcrossJointVelocityJacobian := f\<rparr>) n pc = calcBodyTransforms ext n pc"
  by (simp add: calcBodyTransforms_def Let_def getX_MB_def)

lemma afterBodyTransforms_as_defined_unused:
  "afterBodyTransforms (ext\<lparr>calcAcrossJointVelocityJacobian := f\<rparr>) n sbs
     = afterBodyTransforms ext n sbs"
  by (simp add: afterBodyTransforms_def Let_def afterSinCosQNorm_as_defined_unused
      calcBodyTransforms_as_defined_unused)

lemma realizeDynamics_returns:
  assumes dof_pos: "0 < dof n"
    and u_ok: "uIndex n + dof n \<le> length (sbsU sbs)"
    and hfm_ok: "uIndex n + dof n \<le> length (storageForHDot_FM (dynamicsCache sbs))"
    and h_ok: "uIndex n + dof n \<le> length (storageForHDot (dynamicsCache sbs))"
    and len_fm: "length (if reversed n then calcReverseMobilizerHDot_FM ext sbs
                         else calcAcrossJointVelocityJacobianDot ext sbs) = dof n"
    and len_h: "\<forall>mv pc vc dc.
                  length (calcParentToChildVelocityJacobianInGroundDot ext mv pc vc dc) = dof n"
  shows "\<exists>dc3.
     realizeDynamics ext n sbs
       = Inr (sbs\<lparr>dynamicsCache :=
            calcJointIndependentDynamicsVel ext (positionCache sbs) (velocityCache sbs) dc3\<rparr>)
     \<and> getHDot_FM n dc3
         = Inr (if reversed n then calcReverseMobilizerHDot_FM ext sbs
                else calcAcrossJointVelocityJacobianDot ext sbs)"
proof -
  let ?hfm = "if reversed n then calcReverseMobilizerHDot_FM ext sbs
              else calcAcrossJointVelocityJacobianDot ext sbs"
  let ?s1 = "take (uIndex n) (storageForHDot_FM (dynamicsCache sbs)) @ ?hfm
             @ drop (uIndex n + dof n) (storageForHDot_FM (dynamicsCache sbs))"
  let ?dc1 = "(dynamicsCache sbs)\<lparr>storageForHDot_FM := ?s1\<rparr>"
  let ?h = "calcParentToChildVelocityJacobianInGroundDot ext (modelVars sbs) (positionCache sbs)
              (velocityCache sbs) ?dc1"
  let ?s2 = "take (uIndex n) (storageForHDot (dynamicsCache sbs)) @ ?h
             @ drop (uIndex n + dof n) (storageForHDot (dynamicsCache sbs))"
  let ?dc2 = "?dc1\<lparr>storageForHDot := ?s2\<rparr>"
  let ?w = "take (dof n) (drop (uIndex n) (sbsU sbs))"
  have lh: "length ?h = dof n" using len_h by simp
  have step1: "updHDot_FM n ?hfm (dynamicsCache sbs) = Inr ?dc1"
    using hfm_ok len_fm by (simp add: updHDot_FM_def updAs_in_range)
  have step2: "updHDot n ?h ?dc1 = Inr ?dc2"
    using h_ok lh by (simp add: updHDot_def updAs_in_range)
  have hd: "getHDot n ?dc2 = Inr ?h"
    using h_ok lh by (simp add: getHDot_def getAs_def)
  have w: "fromU n (sbsU sbs) = Inr ?w"
    using u_ok by (simp add: fromU_def getAs_in_range)
  have "length ?h = length ?w" "0 < length ?w" using lh u_ok dof_pos by simp_all
  then have "\<exists>x. HTimesVec ?h ?w = Inr x" by (rule HTimesVec_defined)
  then obtain vd where vd: "HTimesVec ?h ?w = Inr vd" ..
  have step3: "calcJointDynamics n (positionCache sbs) (sbsU sbs) (velocityCache sbs) ?dc2
                 = Inr (updVD_PB_G n vd ?dc2)"
    by (simp add: calcJointDynamics_def hd w vd)
  have run: "realizeDynamics ext n sbs
       = Inr (sbs\<lparr>dynamicsCache :=
            calcJointIndependentDynamicsVel ext (positionCache sbs) (velocityCache sbs)
              (updVD_PB_G n vd ?dc2)\<rparr>)"
    unfolding realizeDynamics_def Let_def isReversed_def
    using step1 step2 step3 by simp
  have "length ?hfm = dof n" using len_fm by simp
  then have block: "getHDot_FM n (updVD_PB_G n vd ?dc2) = Inr ?hfm"
    using hfm_ok by (simp add: getHDot_FM_def updVD_PB_G_def getAs_def)
  from run block show ?thesis by blast
qed

lemma exampleMobilizer_fields [simp]:
  "compose exampleMobilizer = rigidCompose"
  "invert exampleMobilizer = rigidInvert"
  "calcAcrossJointTransform exampleMobilizer = (\<lambda>sbs qv. quarterTurnZ)"
  "calcAcrossJointVelocityJacobian exampleMobilizer = (\<lambda>sbs. [((0, 0, 1), (0, 0, 0))])"
  "calcAcrossJointVelocityJacobianDot exampleMobilizer = (\<lambda>sbs. [((0, 0, 0), (0, 1, 0))])"
  "calcReverseMobilizerH_FM exampleMobilizer = (\<lambda>sbs. [((0, 0, - 1), (0, 0, 0))])"
  "calcReverseMobilizerHDot_FM exampleMobilizer = (\<lambda>sbs. [((0, 0, 0), (0, - 1, 0))])"
  "calcParentToChildVelocityJacobianInGround exampleMobilizer = (\<lambda>mv pc. [((0, 0, - 1), (0, 0, 0))])"
  "calcParentToChildVelocityJacobianInGroundDot exampleMobilizer
     = (\<lambda>mv pc vc dc. [((0, 0, 0), (0, - 1, 0))])"
  "calcJointIndependentKinematicsPos exampleMobilizer = (\<lambda>pc. pc\<lparr>pcOther := Suc (pcOther pc)\<rparr>)"
  "calcJointIndependentDynamicsVel exampleMobilizer = (\<lambda>pc vc dc. dc\<lparr>dcOther := Suc (dcOther dc)\<rparr>)"
  by (simp_all add: exampleMobilizer_def)

lemma reversedPin_fields [simp]:
  "dof reversedPin = 1" "uIndex reversedPin = 0" "nodeNum reversedPin = 1"
  "parentNum reversedPin = 0" "reversed reversedPin"
  "X_PF reversedPin = \<lparr>T_R = ((1, 0, 0), (0, 1, 0), (0, 0, 1)), T_p = (1, 0, 0)\<rparr>"
  "X_BM reversedPin = identityTransform"
  by (simp_all add: reversedPin_def pinNode_def)

lemma pinDigest_fields [simp]:
  "storageForH_FM (positionCache pinDigest) = [((0, 0, 1), (0, 0, 0))]"
  "storageForH (positionCache pinDigest) = [((0, 0, 1), (0, 2, 0))]"
  "pcX_GB (positionCache pinDigest) = (\<lambda>_. \<lparr>T_R = ((1, 0, 0), (0, 1, 0), (0, 0, 1)), T_p = (0, 5, 0)\<rparr>)"
  "storageForHDot_FM (dynamicsCache pinDigest) = [((0, 0, 0), (0, 0, 0))]"
  "storageForHDot (dynamicsCache pinDigest) = [((0, 0, 0), (0, 0, 0))]"
  "sbsU pinDigest = [2]"
  by (simp_all add: pinDigest_def pinPositionCache_def restDynamicsCache_def)

lemma rigid_examples [simp]:
  "rigidInvert quarterTurnZ = \<lparr>T_R = ((0, 1, 0), (- 1, 0, 0), (0, 0, 1)), T_p = (0, 0, - 3)\<rparr>"
  "rigidInvert identityTransform = identityTransform"
  "rigidCompose (rigidCompose \<lparr>T_R = ((1, 0, 0), (0, 1, 0), (0, 0, 1)), T_p = (1, 0, 0)\<rparr>
       \<lparr>T_R = ((0, 1, 0), (- 1, 0, 0), (0, 0, 1)), T_p = (0, 0, - 3)\<rparr>) identityTransform
     = \<lparr>T_R = ((0, 1, 0), (- 1, 0, 0), (0, 0, 1)), T_p = (1, 0, - 3)\<rparr>"
  "rigidCompose \<lparr>T_R = ((1, 0, 0), (0, 1, 0), (0, 0, 1)), T_p = (0, 5, 0)\<rparr>
       \<lparr>T_R = ((0, 1, 0), (- 1, 0, 0), (0, 0, 1)), T_p = (1, 0, - 3)\<rparr>
     = \<lparr>T_R = ((0, 1, 0), (- 1, 0, 0), (0, 0, 1)), T_p = (1, 5, - 3)\<rparr>"
  by (simp_all add: rigidInvert_def rigidCompose_def quarterTurnZ_def identityTransform_def
      transpose33_def matVec3_def matMul33_def dot3_def scaleVec3_def addVec3_def)

text \<open>
  C3. \<^verbatim>\<open>realizePosition\<close> stores as \<open>X_FM\<close> the inverse of the as-defined across-joint
  transform when the node is reversed and the as-defined transform itself otherwise; the
  body's transform in its parent is \<open>X_PB = X_PF * X_FM * X_MB\<close> and its transform in
  Ground is \<open>X_GB = X_GP * X_PB\<close>, with \<open>X_GP\<close> the parent's entry of the cache as it was
  on entry. The run returns when the node's Jacobian blocks lie inside their storage;
  the joint-independent position kinematics, whose body is not at hand, is taken to
  leave the node's three transforms alone.
\<close>

theorem realizePosition_transforms:
  assumes hfm_ok: "uIndex n + dof n \<le> length (storageForH_FM (positionCache sbs))"
    and h_ok: "uIndex n + dof n \<le> length (storageForH (positionCache sbs))"
    and len_fm: "\<forall>s. length (calcReverseMobilizerH_FM ext s) = dof n
                   \<and> length (calcAcrossJointVelocityJacobian ext s) = dof n"
    and len_h: "\<forall>mv pc. length (calcParentToChildVelocityJacobianInGround ext mv pc) = dof n"
    and frame: "\<forall>pc. getX_FM n (calcJointIndependentKinematicsPos ext pc) = getX_FM n pc
                  \<and> getX_PB n (calcJointIndependentKinematicsPos ext pc) = getX_PB n pc
                  \<and> getX_GB n (calcJointIndependentKinematicsPos ext pc) = getX_GB n pc"
  shows "\<exists>sbs'. realizePosition ext n sbs = Inr sbs'
           \<and> getX_FM n (positionCache sbs')
               = (if reversed n
                  then invert ext (calcAcrossJointTransform ext (afterSinCosQNorm ext sbs) (sbsQ sbs))
                  else calcAcrossJointTransform ext (afterSinCosQNorm ext sbs) (sbsQ sbs))
           \<and> getX_PB n (positionCache sbs')
               = compose ext (compose ext (X_PF n) (getX_FM n (positionCache sbs'))) (getX_MB ext n)
           \<and> getX_GB n (positionCache sbs')
               = compose ext (getX_GP n (positionCache sbs)) (getX_PB n (positionCache sbs'))"
proof -
  let ?sbs3 = "afterBodyTransforms ext n sbs"
  have "length (if reversed n then calcReverseMobilizerH_FM ext ?sbs3
                else calcAcrossJointVelocityJacobian ext ?sbs3) = dof n"
    using len_fm by simp
  from realizePosition_returns [OF hfm_ok h_ok this len_h]
  obtain s1 s2 where run:
    "realizePosition ext n sbs
       = Inr (?sbs3\<lparr>positionCache :=
            calcJointIndependentKinematicsPos ext
              ((positionCache ?sbs3)\<lparr>storageForH_FM := s1, storageForH := s2\<rparr>)\<rparr>)"
    by blast
  let ?pc5 = "(positionCache ?sbs3)\<lparr>storageForH_FM := s1, storageForH := s2\<rparr>"
  let ?sbs' = "?sbs3\<lparr>positionCache := calcJointIndependentKinematicsPos ext ?pc5\<rparr>"
  have same: "getX_FM n ?pc5 = getX_FM n (positionCache ?sbs3)"
    "getX_PB n ?pc5 = getX_PB n (positionCache ?sbs3)"
    "getX_GB n ?pc5 = getX_GB n (positionCache ?sbs3)"
    by (simp_all add: getX_FM_def getX_PB_def getX_GB_def)
  have fm: "getX_FM n (positionCache ?sbs') = getX_FM n (positionCache ?sbs3)"
    using frame same by simp
  have pb: "getX_PB n (positionCache ?sbs') = getX_PB n (positionCache ?sbs3)"
    using frame same by simp
  have gb: "getX_GB n (positionCache ?sbs') = getX_GB n (positionCache ?sbs3)"
    using frame same by simp
  have "getX_FM n (positionCache ?sbs')
          = (if reversed n
             then invert ext (calcAcrossJointTransform ext (afterSinCosQNorm ext sbs) (sbsQ sbs))
             else calcAcrossJointTransform ext (afterSinCosQNorm ext sbs) (sbsQ sbs))"
    unfolding fm by (rule afterBodyTransforms_X_FM)
  moreover have "getX_PB n (positionCache ?sbs')
          = compose ext (compose ext (X_PF n) (getX_FM n (positionCache ?sbs'))) (getX_MB ext n)"
    unfolding fm pb by (rule afterBodyTransforms_X_PB)
  moreover have "getX_GB n (positionCache ?sbs')
          = compose ext (getX_GP n (positionCache sbs)) (getX_PB n (positionCache ?sbs'))"
    unfolding pb gb by (rule afterBodyTransforms_X_GB)
  ultimately show ?thesis using run by blast
qed

theorem realizePosition_transforms_witness:
  "uIndex reversedPin + dof reversedPin \<le> length (storageForH_FM (positionCache pinDigest))
   \<and> uIndex reversedPin + dof reversedPin \<le> length (storageForH (positionCache pinDigest))
   \<and> reversed reversedPin
   \<and> (\<exists>sbs'. realizePosition exampleMobilizer reversedPin pinDigest = Inr sbs'
         \<and> getX_FM reversedPin (positionCache sbs')
             = \<lparr>T_R = ((0, 1, 0), (- 1, 0, 0), (0, 0, 1)), T_p = (0, 0, - 3)\<rparr>
         \<and> getX_PB reversedPin (positionCache sbs')
             = \<lparr>T_R = ((0, 1, 0), (- 1, 0, 0), (0, 0, 1)), T_p = (1, 0, - 3)\<rparr>
         \<and> getX_GB reversedPin (positionCache sbs')
             = \<lparr>T_R = ((0, 1, 0), (- 1, 0, 0), (0, 0, 1)), T_p = (1, 5, - 3)\<rparr>)"
proof -
  have frame: "\<forall>pc. getX_FM reversedPin (calcJointIndependentKinematicsPos exampleMobilizer pc)
                      = getX_FM reversedPin pc
                  \<and> getX_PB reversedPin (calcJointIndependentKinematicsPos exampleMobilizer pc)
                      = getX_PB reversedPin pc
                  \<and> getX_GB reversedPin (calcJointIndependentKinematicsPos exampleMobilizer pc)
                      = getX_GB reversedPin pc"
    by (simp add: getX_FM_def getX_PB_def getX_GB_def)
  from realizePosition_transforms [of reversedPin pinDigest exampleMobilizer, OF _ _ _ _ frame]
  obtain sbs' where run: "realizePosition exampleMobilizer reversedPin pinDigest = Inr sbs'"
    and fm: "getX_FM reversedPin (positionCache sbs') = rigidInvert quarterTurnZ"
    and pb: "getX_PB reversedPin (positionCache sbs')
               = rigidCompose (rigidCompose (X_PF reversedPin) (getX_FM reversedPin (positionCache sbs')))
                   (rigidInvert (X_BM reversedPin))"
    and gb: "getX_GB reversedPin (positionCache sbs')
               = rigidCompose (pcX_GB (positionCache pinDigest) 0)
                   (getX_PB reversedPin (positionCache sbs'))"
    by (auto simp: getX_MB_def getX_GP_def)
  have fm': "getX_FM reversedPin (positionCache sbs')
               = \<lparr>T_R = ((0, 1, 0), (- 1, 0, 0), (0, 0, 1)), T_p = (0, 0, - 3)\<rparr>"
    using fm by simp
  have pb': "getX_PB reversedPin (positionCache sbs')
               = \<lparr>T_R = ((0, 1, 0), (- 1, 0, 0), (0, 0, 1)), T_p = (1, 0, - 3)\<rparr>"
    unfolding pb fm' by simp
  have gb': "getX_GB reversedPin (positionCache sbs')
               = \<lparr>T_R = ((0, 1, 0), (- 1, 0, 0), (0, 0, 1)), T_p = (1, 5, - 3)\<rparr>"
    unfolding gb pb' by simp
  from run fm' pb' gb' show ?thesis by simp
qed

text \<open>
  C4. For a reversed node, \<^verbatim>\<open>realizePosition\<close> fills the node's block of \<open>H_FM\<close> with what
  \<^verbatim>\<open>calcReverseMobilizerH_FM\<close> returns on the digest as it stands after the body
  transforms, and \<^verbatim>\<open>realizeDynamics\<close> fills the block of \<open>HDot_FM\<close> with what
  \<^verbatim>\<open>calcReverseMobilizerHDot_FM\<close> returns; neither run depends on the as-defined
  \<^verbatim>\<open>calcAcrossJointVelocityJacobian\<close> or \<^verbatim>\<open>calcAcrossJointVelocityJacobianDot\<close>, which
  may be replaced by any function. The adapter's output is what the cache holds when the
  stage returns; the joint-independent routines, whose bodies are not at hand, are taken
  to leave that storage alone.
\<close>

theorem reversed_node_stores_adapter_output:
  assumes rev: "reversed n"
    and dof_pos: "0 < dof n"
    and u_ok: "uIndex n + dof n \<le> length (sbsU sbs)"
    and hfm_ok: "uIndex n + dof n \<le> length (storageForH_FM (positionCache sbs))"
    and h_ok: "uIndex n + dof n \<le> length (storageForH (positionCache sbs))"
    and hdfm_ok: "uIndex n + dof n \<le> length (storageForHDot_FM (dynamicsCache sbs))"
    and hd_ok: "uIndex n + dof n \<le> length (storageForHDot (dynamicsCache sbs))"
    and len_adapter: "\<forall>s. length (calcReverseMobilizerH_FM ext s) = dof n
                        \<and> length (calcReverseMobilizerHDot_FM ext s) = dof n"
    and len_ground: "\<forall>mv pc vc dc.
                       length (calcParentToChildVelocityJacobianInGround ext mv pc) = dof n
                       \<and> length (calcParentToChildVelocityJacobianInGroundDot ext mv pc vc dc) = dof n"
    and frame: "\<forall>pc vc dc.
                  storageForH_FM (calcJointIndependentKinematicsPos ext pc) = storageForH_FM pc
                  \<and> storageForHDot_FM (calcJointIndependentDynamicsVel ext pc vc dc)
                      = storageForHDot_FM dc"
  shows "(\<exists>sbs'. realizePosition ext n sbs = Inr sbs'
            \<and> getH_FM n (positionCache sbs')
                = Inr (calcReverseMobilizerH_FM ext (afterBodyTransforms ext n sbs)))
         \<and> (\<forall>f. realizePosition (ext\<lparr>calcAcrossJointVelocityJacobian := f\<rparr>) n sbs
                  = realizePosition ext n sbs)
         \<and> (\<exists>sbs'. realizeDynamics ext n sbs = Inr sbs'
            \<and> getHDot_FM n (dynamicsCache sbs') = Inr (calcReverseMobilizerHDot_FM ext sbs))
         \<and> (\<forall>f. realizeDynamics (ext\<lparr>calcAcrossJointVelocityJacobianDot := f\<rparr>) n sbs
                  = realizeDynamics ext n sbs)"
proof -
  let ?sbs3 = "afterBodyTransforms ext n sbs"
  have len3: "length (if reversed n then calcReverseMobilizerH_FM ext ?sbs3
                      else calcAcrossJointVelocityJacobian ext ?sbs3) = dof n"
    using rev len_adapter by simp
  have lenp: "\<forall>mv pc. length (calcParentToChildVelocityJacobianInGround ext mv pc) = dof n"
    using len_ground by simp
  from realizePosition_returns [OF hfm_ok h_ok len3 lenp]
  obtain s1 s2 where runp:
    "realizePosition ext n sbs
       = Inr (?sbs3\<lparr>positionCache :=
            calcJointIndependentKinematicsPos ext
              ((positionCache ?sbs3)\<lparr>storageForH_FM := s1, storageForH := s2\<rparr>)\<rparr>)"
    and blockp: "getAs (uIndex n) (dof n) s1 = Inr (calcReverseMobilizerH_FM ext ?sbs3)"
    using rev by auto
  have pos: "\<exists>sbs'. realizePosition ext n sbs = Inr sbs'
            \<and> getH_FM n (positionCache sbs') = Inr (calcReverseMobilizerH_FM ext ?sbs3)"
    using runp blockp frame by (simp add: getH_FM_def)
  have pos_indep: "\<forall>f. realizePosition (ext\<lparr>calcAcrossJointVelocityJacobian := f\<rparr>) n sbs
                         = realizePosition ext n sbs"
    using rev by (simp add: realizePosition_def Let_def afterBodyTransforms_as_defined_unused isReversed_def)
  have lend: "length (if reversed n then calcReverseMobilizerHDot_FM ext sbs
                      else calcAcrossJointVelocityJacobianDot ext sbs) = dof n"
    using rev len_adapter by simp
  have lenpd: "\<forall>mv pc vc dc.
                 length (calcParentToChildVelocityJacobianInGroundDot ext mv pc vc dc) = dof n"
    using len_ground by simp
  from realizeDynamics_returns [OF dof_pos u_ok hdfm_ok hd_ok lend lenpd]
  obtain dc3 where rund:
    "realizeDynamics ext n sbs
       = Inr (sbs\<lparr>dynamicsCache :=
            calcJointIndependentDynamicsVel ext (positionCache sbs) (velocityCache sbs) dc3\<rparr>)"
    and blockd: "getHDot_FM n dc3 = Inr (calcReverseMobilizerHDot_FM ext sbs)"
    using rev by auto
  have dyn: "\<exists>sbs'. realizeDynamics ext n sbs = Inr sbs'
            \<and> getHDot_FM n (dynamicsCache sbs') = Inr (calcReverseMobilizerHDot_FM ext sbs)"
    using rund blockd frame by (simp add: getHDot_FM_def)
  have dyn_indep: "\<forall>f. realizeDynamics (ext\<lparr>calcAcrossJointVelocityJacobianDot := f\<rparr>) n sbs
                         = realizeDynamics ext n sbs"
    using rev by (simp add: realizeDynamics_def Let_def isReversed_def)
  from pos pos_indep dyn dyn_indep show ?thesis by blast
qed

theorem reversed_node_stores_adapter_output_witness:
  "reversed reversedPin \<and> 0 < dof reversedPin
   \<and> uIndex reversedPin + dof reversedPin \<le> length (sbsU pinDigest)
   \<and> uIndex reversedPin + dof reversedPin \<le> length (storageForH_FM (positionCache pinDigest))
   \<and> uIndex reversedPin + dof reversedPin \<le> length (storageForHDot_FM (dynamicsCache pinDigest))
   \<and> calcAcrossJointVelocityJacobian exampleMobilizer pinDigest = [((0, 0, 1), (0, 0, 0))]
   \<and> calcAcrossJointVelocityJacobianDot exampleMobilizer pinDigest = [((0, 0, 0), (0, 1, 0))]
   \<and> (\<exists>sbs'. realizePosition exampleMobilizer reversedPin pinDigest = Inr sbs'
         \<and> getH_FM reversedPin (positionCache sbs') = Inr [((0, 0, - 1), (0, 0, 0))])
   \<and> (\<exists>sbs'. realizeDynamics exampleMobilizer reversedPin pinDigest = Inr sbs'
         \<and> getHDot_FM reversedPin (dynamicsCache sbs') = Inr [((0, 0, 0), (0, - 1, 0))])"
  using reversed_node_stores_adapter_output [of reversedPin pinDigest exampleMobilizer]
  by simp

subsection \<open>Slot assignment\<close>

lemma updateSlots_Inr:
  "updateSlots maxNQ n (u, s, q) = Inr r \<longleftrightarrow>
     (\<exists>m. maxNQ n = Inr m \<and> u + dof n \<le> INT_MAX \<and> dof n * dof n \<le> INT_MAX
        \<and> s + dof n * dof n \<le> INT_MAX \<and> q + m \<le> INT_MAX
        \<and> r = (u + dof n, s + dof n * dof n, q + m))"
  by (auto simp: updateSlots_def getDOF_def bindE_eq_Inr checkedInt_Inr)

lemma constructor_records_counters:
  "uIndex (RigidBodyNodeSpec base u s q) = u"
  "uSqIndex (RigidBodyNodeSpec base u s q) = s"
  "qIndex (RigidBodyNodeSpec base u s q) = q"
  "dof (RigidBodyNodeSpec base u s q) = dof base"
  by (simp_all add: RigidBodyNodeSpec_def)

lemma createNodes_Cons_Inr:
  assumes "createNodes ((f, b) # rest) (u, s, q) = Inr (ns, sl)"
  shows "\<exists>m ns'. f (RigidBodyNodeSpec b u s q) = Inr m
           \<and> ns = RigidBodyNodeSpec b u s q # ns'
           \<and> createNodes rest (u + dof b, s + dof b * dof b, q + m) = Inr (ns', sl)"
proof -
  from assms obtain n sl1 where c1: "createNode f b (u, s, q) = Inr (n, sl1)"
    and rest: "bindE (createNodes rest sl1) (\<lambda>(ns', sl''). Inr (n # ns', sl'')) = Inr (ns, sl)"
    by (auto simp: bindE_eq_Inr)
  from c1 have n: "n = RigidBodyNodeSpec b u s q"
    and upd: "updateSlots f n (u, s, q) = Inr sl1"
    by (auto simp: createNode_def Let_def bindE_eq_Inr)
  from upd obtain m where m: "f n = Inr m"
    and sl1: "sl1 = (u + dof n, s + dof n * dof n, q + m)"
    by (auto simp: updateSlots_Inr)
  from rest obtain ns' where "createNodes rest sl1 = Inr (ns', sl)" "ns = n # ns'"
    by (auto simp: bindE_eq_Inr)
  with n m sl1 show ?thesis by (simp add: constructor_records_counters)
qed

lemma createNodes_lower_bound:
  "createNodes specs (u, s, q) = Inr (ns, (u', s', q')) \<Longrightarrow>
     u \<le> u' \<and> s \<le> s' \<and> q \<le> q'
     \<and> (\<forall>n \<in> set ns. u \<le> uIndex n \<and> s \<le> uSqIndex n \<and> q \<le> qIndex n)"
proof (induction specs arbitrary: u s q ns)
  case Nil
  then show ?case by simp
next
  case (Cons spec rest)
  obtain f b where spec: "spec = (f, b)" by (cases spec)
  from Cons.prems spec createNodes_Cons_Inr [of f b rest u s q ns "(u', s', q')"]
  obtain m ns' where hd: "ns = RigidBodyNodeSpec b u s q # ns'"
    and tl: "createNodes rest (u + dof b, s + dof b * dof b, q + m) = Inr (ns', (u', s', q'))"
    by auto
  from Cons.IH [OF tl] show ?case
    unfolding hd by (auto simp: constructor_records_counters)
qed

lemma createNodes_layout:
  "createNodes specs (u, s, q) = Inr (ns, (u', s', q')) \<Longrightarrow>
     length ns = length specs
     \<and> (ns \<noteq> [] \<longrightarrow> uIndex (ns ! 0) = u \<and> uSqIndex (ns ! 0) = s \<and> qIndex (ns ! 0) = q)
     \<and> (\<forall>i. i < length ns \<longrightarrow>
          (\<exists>m. fst (specs ! i) (ns ! i) = Inr m
             \<and> (if Suc i < length ns
                then uIndex (ns ! Suc i) = uIndex (ns ! i) + dof (ns ! i)
                     \<and> uSqIndex (ns ! Suc i) = uSqIndex (ns ! i) + dof (ns ! i) * dof (ns ! i)
                     \<and> qIndex (ns ! Suc i) = qIndex (ns ! i) + m
                else u' = uIndex (ns ! i) + dof (ns ! i)
                     \<and> s' = uSqIndex (ns ! i) + dof (ns ! i) * dof (ns ! i)
                     \<and> q' = qIndex (ns ! i) + m)))
     \<and> (\<forall>i j. i < j \<longrightarrow> j < length ns \<longrightarrow>
          uIndex (ns ! i) + dof (ns ! i) \<le> uIndex (ns ! j)
          \<and> uSqIndex (ns ! i) + dof (ns ! i) * dof (ns ! i) \<le> uSqIndex (ns ! j)
          \<and> (\<exists>m. fst (specs ! i) (ns ! i) = Inr m \<and> qIndex (ns ! i) + m \<le> qIndex (ns ! j)))"
proof (induction specs arbitrary: u s q ns)
  case Nil
  then show ?case by simp
next
  case (Cons spec rest)
  obtain f b where spec: "spec = (f, b)" by (cases spec)
  let ?n = "RigidBodyNodeSpec b u s q"
  from Cons.prems spec createNodes_Cons_Inr [of f b rest u s q ns "(u', s', q')"]
  obtain m ns' where m: "f ?n = Inr m" and hd: "ns = ?n # ns'"
    and tl: "createNodes rest (u + dof b, s + dof b * dof b, q + m) = Inr (ns', (u', s', q'))"
    by auto
  note ih = Cons.IH [OF tl]
  note lb = createNodes_lower_bound [OF tl]
  have len: "length ns = length (spec # rest)" using ih hd by simp
  have first: "ns \<noteq> [] \<longrightarrow> uIndex (ns ! 0) = u \<and> uSqIndex (ns ! 0) = s \<and> qIndex (ns ! 0) = q"
    by (simp add: hd constructor_records_counters)
  have empty_tail: "ns' = [] \<Longrightarrow> u' = u + dof b \<and> s' = s + dof b * dof b \<and> q' = q + m"
    using tl ih by (cases rest) auto
  have adj: "\<forall>i. i < length ns \<longrightarrow>
          (\<exists>m. fst ((spec # rest) ! i) (ns ! i) = Inr m
             \<and> (if Suc i < length ns
                then uIndex (ns ! Suc i) = uIndex (ns ! i) + dof (ns ! i)
                     \<and> uSqIndex (ns ! Suc i) = uSqIndex (ns ! i) + dof (ns ! i) * dof (ns ! i)
                     \<and> qIndex (ns ! Suc i) = qIndex (ns ! i) + m
                else u' = uIndex (ns ! i) + dof (ns ! i)
                     \<and> s' = uSqIndex (ns ! i) + dof (ns ! i) * dof (ns ! i)
                     \<and> q' = qIndex (ns ! i) + m))"
  proof (intro allI impI)
    fix i assume i: "i < length ns"
    show "\<exists>m. fst ((spec # rest) ! i) (ns ! i) = Inr m
             \<and> (if Suc i < length ns
                then uIndex (ns ! Suc i) = uIndex (ns ! i) + dof (ns ! i)
                     \<and> uSqIndex (ns ! Suc i) = uSqIndex (ns ! i) + dof (ns ! i) * dof (ns ! i)
                     \<and> qIndex (ns ! Suc i) = qIndex (ns ! i) + m
                else u' = uIndex (ns ! i) + dof (ns ! i)
                     \<and> s' = uSqIndex (ns ! i) + dof (ns ! i) * dof (ns ! i)
                     \<and> q' = qIndex (ns ! i) + m)"
    proof (cases i)
      case 0
      show ?thesis
      proof (cases "ns' = []")
        case True
        with 0 m empty_tail show ?thesis
          by (simp add: hd spec constructor_records_counters)
      next
        case False
        with ih have "uIndex (ns' ! 0) = u + dof b" "uSqIndex (ns' ! 0) = s + dof b * dof b"
          "qIndex (ns' ! 0) = q + m" by simp_all
        with 0 m False show ?thesis
          by (simp add: hd spec constructor_records_counters)
      qed
    next
      case (Suc k)
      with i hd have k: "k < length ns'" by simp
      with ih have "\<exists>m. fst (rest ! k) (ns' ! k) = Inr m
             \<and> (if Suc k < length ns'
                then uIndex (ns' ! Suc k) = uIndex (ns' ! k) + dof (ns' ! k)
                     \<and> uSqIndex (ns' ! Suc k) = uSqIndex (ns' ! k) + dof (ns' ! k) * dof (ns' ! k)
                     \<and> qIndex (ns' ! Suc k) = qIndex (ns' ! k) + m
                else u' = uIndex (ns' ! k) + dof (ns' ! k)
                     \<and> s' = uSqIndex (ns' ! k) + dof (ns' ! k) * dof (ns' ! k)
                     \<and> q' = qIndex (ns' ! k) + m)"
        by blast
      then show ?thesis by (cases "Suc k < length ns'") (auto simp: Suc hd)
    qed
  qed
  have disj: "\<forall>i j. i < j \<longrightarrow> j < length ns \<longrightarrow>
          uIndex (ns ! i) + dof (ns ! i) \<le> uIndex (ns ! j)
          \<and> uSqIndex (ns ! i) + dof (ns ! i) * dof (ns ! i) \<le> uSqIndex (ns ! j)
          \<and> (\<exists>m. fst ((spec # rest) ! i) (ns ! i) = Inr m \<and> qIndex (ns ! i) + m \<le> qIndex (ns ! j))"
  proof (intro allI impI)
    fix i j assume ij: "i < j" and j: "j < length ns"
    then obtain j' where j': "j = Suc j'" by (cases j) auto
    with j hd have j'len: "j' < length ns'" by simp
    show "uIndex (ns ! i) + dof (ns ! i) \<le> uIndex (ns ! j)
          \<and> uSqIndex (ns ! i) + dof (ns ! i) * dof (ns ! i) \<le> uSqIndex (ns ! j)
          \<and> (\<exists>m. fst ((spec # rest) ! i) (ns ! i) = Inr m \<and> qIndex (ns ! i) + m \<le> qIndex (ns ! j))"
    proof (cases i)
      case 0
      from j'len have "ns' ! j' \<in> set ns'" by simp
      with lb have "u + dof b \<le> uIndex (ns' ! j')" "s + dof b * dof b \<le> uSqIndex (ns' ! j')"
        "q + m \<le> qIndex (ns' ! j')" by blast+
      with 0 m show ?thesis
        by (simp add: hd spec j' constructor_records_counters)
    next
      case (Suc i')
      with ij j' have "i' < j'" by simp
      with ih j'len have "uIndex (ns' ! i') + dof (ns' ! i') \<le> uIndex (ns' ! j')
          \<and> uSqIndex (ns' ! i') + dof (ns' ! i') * dof (ns' ! i') \<le> uSqIndex (ns' ! j')
          \<and> (\<exists>m. fst (rest ! i') (ns' ! i') = Inr m \<and> qIndex (ns' ! i') + m \<le> qIndex (ns' ! j'))"
        by blast
      then show ?thesis by (simp add: Suc j' hd)
    qed
  qed
  from len first adj disj show ?case by blast
qed


lemma createNodes_returns:
  assumes "list_all2 (\<lambda>spec m. \<forall>a b c. fst spec (RigidBodyNodeSpec (snd spec) a b c) = Inr m) specs ms"
    and "u + sum_list (map (\<lambda>spec. dof (snd spec)) specs) \<le> INT_MAX"
    and "s + sum_list (map (\<lambda>spec. dof (snd spec) * dof (snd spec)) specs) \<le> INT_MAX"
    and "q + sum_list ms \<le> INT_MAX"
  shows "\<exists>ns sl. createNodes specs (u, s, q) = Inr (ns, sl)"
  using assms
proof (induction specs ms arbitrary: u s q rule: list_all2_induct)
  case Nil
  then show ?case by simp
next
  case (Cons spec specs m ms)
  obtain f b where spec: "spec = (f, b)" by (cases spec)
  let ?n = "RigidBodyNodeSpec b u s q"
  from Cons.hyps(1) spec have m: "f ?n = Inr m" by simp
  have bounds: "u + dof b \<le> INT_MAX" "s + dof b * dof b \<le> INT_MAX" "q + m \<le> INT_MAX"
    using Cons.prems spec by simp_all
  then have "dof b * dof b \<le> INT_MAX" by simp
  with m bounds
  have upd: "updateSlots f ?n (u, s, q) = Inr (u + dof b, s + dof b * dof b, q + m)"
    by (simp add: updateSlots_Inr constructor_records_counters)
  have "\<exists>ns sl. createNodes specs (u + dof b, s + dof b * dof b, q + m) = Inr (ns, sl)"
    using Cons.prems spec by (intro Cons.IH) (simp_all add: add.assoc)
  then obtain ns sl where "createNodes specs (u + dof b, s + dof b * dof b, q + m) = Inr (ns, sl)"
    by blast
  then have "createNodes (spec # specs) (u, s, q) = Inr (?n # ns, sl)"
    by (simp add: spec createNode_def Let_def upd)
  then show ?case by blast
qed

text \<open>
  C8. \<^verbatim>\<open>updateSlots\<close> advances the next-u-slot counter by exactly \<open>dof\<close>, the
  next-u-squared-slot counter by exactly \<open>dof * dof\<close> and the next-q-slot counter by exactly
  what \<^verbatim>\<open>getMaxNQ()\<close> returns, as long as no counter leaves the range of \<^verbatim>\<open>int\<close>; the
  constructor records the counters as they stand. Nodes constructed one after the other
  on the same counters therefore get dense slices (the first starts at the initial
  counters, each next one where the previous ends, and the final counters are the end of
  the last) that do not overlap (a later node's slice starts at or after the end of an
  earlier node's).
\<close>

theorem slots_dense_and_disjoint:
  "(maxNQ n = Inr m \<and> u + dof n \<le> INT_MAX \<and> s + dof n * dof n \<le> INT_MAX \<and> q + m \<le> INT_MAX \<longrightarrow>
      updateSlots maxNQ n (u, s, q) = Inr (u + dof n, s + dof n * dof n, q + m))
   \<and> uIndex (RigidBodyNodeSpec base u s q) = u
   \<and> uSqIndex (RigidBodyNodeSpec base u s q) = s
   \<and> qIndex (RigidBodyNodeSpec base u s q) = q
   \<and> (list_all2 (\<lambda>spec m. \<forall>a b c. fst spec (RigidBodyNodeSpec (snd spec) a b c) = Inr m) specs ms
        \<and> u + sum_list (map (\<lambda>spec. dof (snd spec)) specs) \<le> INT_MAX
        \<and> s + sum_list (map (\<lambda>spec. dof (snd spec) * dof (snd spec)) specs) \<le> INT_MAX
        \<and> q + sum_list ms \<le> INT_MAX \<longrightarrow>
      (\<exists>ns sl. createNodes specs (u, s, q) = Inr (ns, sl)))
   \<and> (createNodes specs (u, s, q) = Inr (ns, (u', s', q')) \<longrightarrow>
      length ns = length specs
      \<and> (ns \<noteq> [] \<longrightarrow> uIndex (ns ! 0) = u \<and> uSqIndex (ns ! 0) = s \<and> qIndex (ns ! 0) = q)
      \<and> (\<forall>i. i < length ns \<longrightarrow>
          (\<exists>m. fst (specs ! i) (ns ! i) = Inr m
             \<and> (if Suc i < length ns
                then uIndex (ns ! Suc i) = uIndex (ns ! i) + dof (ns ! i)
                     \<and> uSqIndex (ns ! Suc i) = uSqIndex (ns ! i) + dof (ns ! i) * dof (ns ! i)
                     \<and> qIndex (ns ! Suc i) = qIndex (ns ! i) + m
                else u' = uIndex (ns ! i) + dof (ns ! i)
                     \<and> s' = uSqIndex (ns ! i) + dof (ns ! i) * dof (ns ! i)
                     \<and> q' = qIndex (ns ! i) + m)))
      \<and> (\<forall>i j. i < j \<longrightarrow> j < length ns \<longrightarrow>
          uIndex (ns ! i) + dof (ns ! i) \<le> uIndex (ns ! j)
          \<and> uSqIndex (ns ! i) + dof (ns ! i) * dof (ns ! i) \<le> uSqIndex (ns ! j)
          \<and> (\<exists>m. fst (specs ! i) (ns ! i) = Inr m \<and> qIndex (ns ! i) + m \<le> qIndex (ns ! j))))"
proof -
  have advance: "maxNQ n = Inr m \<and> u + dof n \<le> INT_MAX \<and> s + dof n * dof n \<le> INT_MAX
      \<and> q + m \<le> INT_MAX \<longrightarrow>
      updateSlots maxNQ n (u, s, q) = Inr (u + dof n, s + dof n * dof n, q + m)"
  proof
    assume a: "maxNQ n = Inr m \<and> u + dof n \<le> INT_MAX \<and> s + dof n * dof n \<le> INT_MAX
      \<and> q + m \<le> INT_MAX"
    then have "dof n * dof n \<le> INT_MAX" by simp
    with a show "updateSlots maxNQ n (u, s, q) = Inr (u + dof n, s + dof n * dof n, q + m)"
      by (simp add: updateSlots_Inr)
  qed
  have returns: "list_all2 (\<lambda>spec m. \<forall>a b c. fst spec (RigidBodyNodeSpec (snd spec) a b c) = Inr m) specs ms
        \<and> u + sum_list (map (\<lambda>spec. dof (snd spec)) specs) \<le> INT_MAX
        \<and> s + sum_list (map (\<lambda>spec. dof (snd spec) * dof (snd spec)) specs) \<le> INT_MAX
        \<and> q + sum_list ms \<le> INT_MAX \<longrightarrow>
      (\<exists>ns sl. createNodes specs (u, s, q) = Inr (ns, sl))"
    using createNodes_returns [of specs ms u s q] by blast
  have ctor: "uIndex (RigidBodyNodeSpec base u s q) = u"
    "uSqIndex (RigidBodyNodeSpec base u s q) = s"
    "qIndex (RigidBodyNodeSpec base u s q) = q"
    by (rule constructor_records_counters)+
  note layout = createNodes_layout [of specs u s q ns u' s' q']
  show ?thesis
    by (intro conjI; (rule advance ctor returns | (rule impI, drule layout, blast)))
qed

theorem slots_dense_and_disjoint_witness:
  "getMaxNQ pinNode = Inr 1 \<and> 0 + dof pinNode \<le> INT_MAX
   \<and> updateSlots getMaxNQ pinNode (0, 0, 0) = Inr (1, 1, 1)
   \<and> (\<exists>ns. createNodes [(getMaxNQ, pinNode), (\<lambda>_. Inr 4, exampleBall), (getMaxNQ, exampleNode)]
               (0, 0, 0) = Inr (ns, (6, 14, 7))
         \<and> map dof ns = [1, 3, 2]
         \<and> map uIndex ns = [0, 1, 4]
         \<and> map uSqIndex ns = [0, 1, 10]
         \<and> map qIndex ns = [0, 1, 5])"
  using slots_dense_and_disjoint [of getMaxNQ pinNode 1 0 0 0 pinNode
      "[(getMaxNQ, pinNode), (\<lambda>_. Inr 4, exampleBall), (getMaxNQ, exampleNode)]" "[1, 4, 2]"]
  by (simp add: pinNode_def exampleBall_def exampleNode_def getMaxNQ_def INT_MAX_def
      createNode_def updateSlots_def checkedInt_def RigidBodyNodeSpec_def getDOF_def)

end
